theory Spec2Isabelle
  imports Complex_Main "HOL-Library.Char_ord" "HOL-Library.List_Lexorder"
    "HOL-Library.Product_Lexorder" "HOL-Library.Log_Nat"
begin

section \<open>JavaScript values used by the services\<close>

text \<open>
  A JavaScript number that holds an integer, or NaN (\<open>None\<close>).  Every comparison
  with NaN is false and every sum or product with NaN is NaN.
\<close>

type_synonym jsnum = "int option"

definition js_add :: "jsnum \<Rightarrow> jsnum \<Rightarrow> jsnum" where
  "js_add a b = (case (a, b) of (Some x, Some y) \<Rightarrow> Some (x + y) | _ \<Rightarrow> None)"

definition js_mul :: "jsnum \<Rightarrow> jsnum \<Rightarrow> jsnum" where
  "js_mul a b = (case (a, b) of (Some x, Some y) \<Rightarrow> Some (x * y) | _ \<Rightarrow> None)"

definition js_lt :: "jsnum \<Rightarrow> jsnum \<Rightarrow> bool" where
  "js_lt a b = (case (a, b) of (Some x, Some y) \<Rightarrow> x < y | _ \<Rightarrow> False)"

definition js_le :: "jsnum \<Rightarrow> jsnum \<Rightarrow> bool" where
  "js_le a b = (case (a, b) of (Some x, Some y) \<Rightarrow> x \<le> y | _ \<Rightarrow> False)"

definition js_gt :: "jsnum \<Rightarrow> jsnum \<Rightarrow> bool" where
  "js_gt a b = js_lt b a"

definition js_ge :: "jsnum \<Rightarrow> jsnum \<Rightarrow> bool" where
  "js_ge a b = js_le b a"

text \<open>
  \<open>s.split(sep)\<close> for a one-character separator: the pieces between the separators,
  the empty string giving one empty piece.
\<close>

fun split_js :: "char \<Rightarrow> string \<Rightarrow> string list" where
  "split_js sep [] = [[]]"
| "split_js sep (c # cs) =
     (if c = sep then [] # split_js sep cs
      else (case split_js sep cs of [] \<Rightarrow> [[c]] | x # xs \<Rightarrow> (c # x) # xs))"

definition digit_of :: "char \<Rightarrow> int option" where
  "digit_of c =
     map_of [(CHR ''0'', 0), (CHR ''1'', 1), (CHR ''2'', 2), (CHR ''3'', 3), (CHR ''4'', 4),
             (CHR ''5'', 5), (CHR ''6'', 6), (CHR ''7'', 7), (CHR ''8'', 8), (CHR ''9'', 9)] c"

fun digits_val :: "string \<Rightarrow> int \<Rightarrow> jsnum" where
  "digits_val [] acc = Some acc"
| "digits_val (c # cs) acc =
     (case digit_of c of None \<Rightarrow> None | Some d \<Rightarrow> digits_val cs (10 * acc + d))"

text \<open>
  \<open>Number(s)\<close> on the strings a time of day is made of: a run of decimal digits is its
  value and the empty string is 0.  Any other string is NaN here; the further numeric
  literals \<open>Number\<close> reads (signs, blanks, fractions, exponents, hexadecimal) do not occur
  in an \<open>HH:MM\<close> time, and the theorems below are stated for times whose two parts are
  digit runs.
\<close>

definition Number_js :: "string \<Rightarrow> jsnum" where
  "Number_js s = digits_val s 0"

text \<open>\<open>x || d\<close> on an optional number: \<open>undefined\<close> and 0 are falsy.\<close>

definition or_default :: "int option \<Rightarrow> int \<Rightarrow> int" where
  "or_default x d = (case x of None \<Rightarrow> d | Some v \<Rightarrow> if v = 0 then d else v)"

text \<open>Truthiness of an optional string: \<open>undefined\<close> and the empty string are falsy.\<close>

definition truthy :: "string option \<Rightarrow> bool" where
  "truthy x = (case x of None \<Rightarrow> False | Some s \<Rightarrow> s \<noteq> [])"

section \<open>Amounts: IEEE 754 double precision\<close>

text \<open>
  A JavaScript \<open>number\<close> that holds an amount: a finite double, given by its exact
  rational value, an infinity (\<open>Infinity True\<close> is the positive one) or NaN.  The two
  zeros are one value; none of the operations of the services tells them apart.
\<close>

datatype double = Finite rat | Infinity bool | NaN

definition pow2 :: "int \<Rightarrow> rat" where
  "pow2 k = (if 0 \<le> k then 2 ^ nat k else 1 / 2 ^ nat (- k))"

text \<open>The nearest integer, a tie going to the even one.\<close>

definition round_even :: "rat \<Rightarrow> int" where
  "round_even r =
     (let f = \<lfloor>r\<rfloor>; d = r - of_int f
      in if d < 1 / 2 then f else if 1 / 2 < d then f + 1 else if even f then f else f + 1)"

text \<open>
  The doubles around \<open>x\<close> are the multiples of \<open>pow2 (quantum_exp x)\<close>: 53 significant
  bits, and no spacing below \<open>pow2 (- 1074)\<close>.  (\<open>bitlen m\<close> is the number of binary
  digits of \<open>m\<close>.)
\<close>

definition quantum_exp :: "rat \<Rightarrow> int" where
  "quantum_exp x = max (bitlen \<lfloor>\<bar>x\<bar> * pow2 1074\<rfloor> - 1127) (- 1074)"

text \<open>
  Rounding an exact result to a double, to nearest and ties to even; a result that rounds to
  \<open>pow2 1024\<close> or beyond in magnitude overflows to the infinity of its sign.
\<close>

definition round64 :: "rat \<Rightarrow> double" where
  "round64 x =
     (let q = quantum_exp x;
          n = round_even (x / pow2 q);
          r = of_int n * pow2 q
      in if pow2 1024 \<le> \<bar>r\<bar> then Infinity (0 < x) else Finite r)"

text \<open>The rationals that are doubles.\<close>

definition representable :: "rat \<Rightarrow> bool" where
  "representable x = (round64 x = Finite x)"

definition dneg :: "double \<Rightarrow> double" where
  "dneg a = (case a of Finite x \<Rightarrow> Finite (- x) | Infinity s \<Rightarrow> Infinity (\<not> s) | NaN \<Rightarrow> NaN)"

text \<open>\<open>a + b\<close>.\<close>

definition dadd :: "double \<Rightarrow> double \<Rightarrow> double" where
  "dadd a b =
     (case (a, b) of
        (Finite x, Finite y) \<Rightarrow> round64 (x + y)
      | (Finite x, Infinity t) \<Rightarrow> Infinity t
      | (Infinity s, Finite y) \<Rightarrow> Infinity s
      | (Infinity s, Infinity t) \<Rightarrow> if s = t then Infinity s else NaN
      | _ \<Rightarrow> NaN)"

text \<open>\<open>a - b\<close>.\<close>

definition dsub :: "double \<Rightarrow> double \<Rightarrow> double" where
  "dsub a b = dadd a (dneg b)"

text \<open>\<open>a * b\<close>.\<close>

definition dmul :: "double \<Rightarrow> double \<Rightarrow> double" where
  "dmul a b =
     (case (a, b) of
        (Finite x, Finite y) \<Rightarrow> round64 (x * y)
      | (Finite x, Infinity t) \<Rightarrow> if x = 0 then NaN else Infinity (t = (0 < x))
      | (Infinity s, Finite y) \<Rightarrow> if y = 0 then NaN else Infinity (s = (0 < y))
      | (Infinity s, Infinity t) \<Rightarrow> Infinity (s = t)
      | _ \<Rightarrow> NaN)"

text \<open>\<open>a / b\<close>; a zero divisor counts as the positive zero.\<close>

definition ddiv :: "double \<Rightarrow> double \<Rightarrow> double" where
  "ddiv a b =
     (case (a, b) of
        (Finite x, Finite y) \<Rightarrow>
          if y = 0 then (if x = 0 then NaN else Infinity (0 < x)) else round64 (x / y)
      | (Finite x, Infinity t) \<Rightarrow> Finite 0
      | (Infinity s, Finite y) \<Rightarrow> Infinity (s = (0 \<le> y))
      | _ \<Rightarrow> NaN)"

text \<open>\<open>a < b\<close> and \<open>a <= b\<close>, false as soon as one side is NaN.\<close>

definition dlt :: "double \<Rightarrow> double \<Rightarrow> bool" where
  "dlt a b =
     (case (a, b) of
        (Finite x, Finite y) \<Rightarrow> x < y
      | (Finite x, Infinity t) \<Rightarrow> t
      | (Infinity s, Finite y) \<Rightarrow> \<not> s
      | (Infinity s, Infinity t) \<Rightarrow> \<not> s \<and> t
      | _ \<Rightarrow> False)"

definition dle :: "double \<Rightarrow> double \<Rightarrow> bool" where
  "dle a b =
     (case (a, b) of
        (Finite x, Finite y) \<Rightarrow> x \<le> y
      | (Finite x, Infinity t) \<Rightarrow> t
      | (Infinity s, Finite y) \<Rightarrow> \<not> s
      | (Infinity s, Infinity t) \<Rightarrow> \<not> s \<or> t
      | _ \<Rightarrow> False)"

definition dgt :: "double \<Rightarrow> double \<Rightarrow> bool" where
  "dgt a b = dlt b a"

definition dge :: "double \<Rightarrow> double \<Rightarrow> bool" where
  "dge a b = dle b a"

text \<open>\<open>x || 0\<close> on an optional amount: \<open>undefined\<close>, 0 and NaN are falsy.\<close>

definition or_zero :: "double option \<Rightarrow> double" where
  "or_zero x =
     (case x of
        None \<Rightarrow> Finite 0
      | Some NaN \<Rightarrow> Finite 0
      | Some v \<Rightarrow> v)"

section \<open>Time of day and the overlap test of checkScheduleConflict\<close>

text \<open>
  \<open>const [hours, minutes] = appointmentTime.split(':').map(Number)\<close>: the first two
  pieces, a missing piece being \<open>undefined\<close>, which turns the arithmetic below into NaN.
\<close>

definition parseTime :: "string \<Rightarrow> jsnum \<times> jsnum" where
  "parseTime appointmentTime =
     (case map Number_js (split_js CHR '':'' appointmentTime) of
        [] \<Rightarrow> (None, None)
      | [hours] \<Rightarrow> (hours, None)
      | hours # minutes # _ \<Rightarrow> (hours, minutes))"

text \<open>\<open>hours * 60 + minutes\<close>.\<close>

definition toMinutes :: "string \<Rightarrow> jsnum" where
  "toMinutes appointmentTime =
     (case parseTime appointmentTime of (hours, minutes) \<Rightarrow> js_add (js_mul hours (Some 60)) minutes)"

text \<open>The condition of the \<open>if\<close> inside the loop of checkScheduleConflict.\<close>

definition overlapTest :: "jsnum \<Rightarrow> jsnum \<Rightarrow> jsnum \<Rightarrow> jsnum \<Rightarrow> bool" where
  "overlapTest startMinutes endMinutes existingStartMinutes existingEndMinutes =
     ((js_ge startMinutes existingStartMinutes \<and> js_lt startMinutes existingEndMinutes) \<or>
      (js_gt endMinutes existingStartMinutes \<and> js_le endMinutes existingEndMinutes) \<or>
      (js_le startMinutes existingStartMinutes \<and> js_ge endMinutes existingEndMinutes))"

text \<open>
  The test on a requested time and duration against an existing time and duration, with the
  start and end minutes computed as the function computes them.
\<close>

definition timesConflict :: "string \<Rightarrow> int \<Rightarrow> string \<Rightarrow> int \<Rightarrow> bool" where
  "timesConflict appointmentTime duration existingTime existingDuration =
     (let startMinutes = toMinutes appointmentTime;
          endMinutes = js_add startMinutes (Some duration);
          existingStartMinutes = toMinutes existingTime;
          existingEndMinutes = js_add existingStartMinutes (Some existingDuration)
      in overlapTest startMinutes endMinutes existingStartMinutes existingEndMinutes)"

text \<open>
  The rule as the specification words it: two intervals conflict if
  \<open>start_A < end_B && start_B < end_A\<close>.
\<close>

definition spec_intervals_conflict :: "int \<Rightarrow> int \<Rightarrow> int \<Rightarrow> int \<Rightarrow> bool" where
  "spec_intervals_conflict start_A end_A start_B end_B = (start_A < end_B \<and> start_B < end_A)"

section \<open>Data model\<close>

text \<open>
  The rows the services read and write, with the fields the code uses.  Identifiers are
  strings, dates are milliseconds since the epoch, amounts of money are doubles.
  The tables are lists in insertion order; the socket server is the list of the events
  emitted so far.
\<close>

datatype UserRole = OWNER | VETERINARIAN | ADMIN | STAFF | CUSTOMER | GUEST | SUPER_ADMIN

datatype AppointmentStatus = SCHEDULED | CONFIRMED | IN_PROGRESS | COMPLETED | CANCELLED | NO_SHOW

datatype InvoiceStatus = DRAFT | SENT | PAID | PARTIAL | OVERDUE | CANCELLED

datatype PaymentMethod = CASH | TRANSFER | CREDIT_CARD | E_WALLET | XENDIT

text \<open>Only \<open>SUCCESS\<close> occurs in the services; any other member of the enum is \<open>OTHER\<close>.\<close>

datatype PaymentStatus = SUCCESS | OTHER string

text \<open>What a service throws: \<open>createError(status, message)\<close>, or a rejection by the ORM.\<close>

datatype Thrown = AppError nat string | PrismaError

record User =
  id :: string
  name :: string
  role :: UserRole
  isActive :: bool
  clinicAccesses :: "string list"

record Patient =
  id :: string
  clinicId :: string
  ownerId :: string
  name :: string
  species :: string
  breed :: "string option"
  microchipId :: "string option"
  isActive :: bool
  createdAt :: int
  updatedAt :: int

record Appointment =
  id :: string
  clinicId :: string
  patientId :: string
  veterinarianId :: "string option"
  appointmentDate :: int
  appointmentTime :: string
  duration :: int
  appointmentType :: string
  status :: AppointmentStatus
  reason :: "string option"
  notesText :: "string option"

record InvoiceItem =
  productId :: "string option"
  description :: string
  quantity :: double
  unitPrice :: double
  discountPercent :: double
  totalPrice :: double

record Invoice =
  id :: string
  clinicId :: string
  patientId :: string
  ownerId :: string
  invoiceNumber :: string
  issueDate :: int
  dueDate :: "int option"
  subtotal :: double
  taxAmount :: double
  discountAmount :: double
  totalAmount :: double
  status :: InvoiceStatus
  notesText :: "string option"
  items :: "InvoiceItem list"
  updatedAt :: int

record Payment =
  id :: string
  invoiceId :: string
  amount :: double
  paymentMethod :: PaymentMethod
  transactionId :: "string option"
  status :: PaymentStatus
  paymentDate :: int
  notesText :: "string option"

record SocketEvent =
  room :: string
  event :: string

record World =
  users :: "User list"
  patients :: "Patient list"
  appointments :: "Appointment list"
  invoices :: "Invoice list"
  payments :: "Payment list"
  emitted :: "SocketEvent list"

section \<open>AppointmentService\<close>

record CreateAppointmentData =
  clinicId :: string
  patientId :: string
  veterinarianId :: "string option"
  appointmentDate :: int
  appointmentTime :: string
  duration :: "int option"
  appointmentType :: string
  reason :: "string option"
  notesText :: "string option"

text \<open>The \<open>for\<close> loop of checkScheduleConflict, returning at the first conflict.\<close>

fun conflictLoop :: "jsnum \<Rightarrow> jsnum \<Rightarrow> Appointment list \<Rightarrow> bool" where
  "conflictLoop startMinutes endMinutes [] = False"
| "conflictLoop startMinutes endMinutes (existing # rest) =
     (let existingStartMinutes = toMinutes (Appointment.appointmentTime existing);
          existingEndMinutes = js_add existingStartMinutes (Some (Appointment.duration existing))
      in if overlapTest startMinutes endMinutes existingStartMinutes existingEndMinutes
         then True
         else conflictLoop startMinutes endMinutes rest)"

text \<open>
  The \<open>where\<close> clause of checkScheduleConflict.  (Parameters that share their name
  with a field of a row carry a prime.)
\<close>

definition conflictWhere :: "string \<Rightarrow> int \<Rightarrow> string option \<Rightarrow> Appointment \<Rightarrow> bool" where
  "conflictWhere veterinarianId' appointmentDate' excludeAppointmentId a =
     (Appointment.veterinarianId a = Some veterinarianId' \<and>
      Appointment.appointmentDate a = appointmentDate' \<and>
      Appointment.status a \<notin> set [AppointmentStatus.CANCELLED, NO_SHOW] \<and>
      (case excludeAppointmentId of
         None \<Rightarrow> True
       | Some x \<Rightarrow> if x \<noteq> [] then Appointment.id a \<noteq> x else True))"

definition checkScheduleConflict ::
  "string \<Rightarrow> int \<Rightarrow> string \<Rightarrow> int \<Rightarrow> string option \<Rightarrow> World \<Rightarrow> bool" where
  "checkScheduleConflict veterinarianId' appointmentDate' appointmentTime' duration'
       excludeAppointmentId w =
     (let startMinutes = toMinutes appointmentTime';
          endMinutes = js_add startMinutes (Some duration');
          existingAppointments =
            filter (conflictWhere veterinarianId' appointmentDate' excludeAppointmentId)
              (World.appointments w)
      in conflictLoop startMinutes endMinutes existingAppointments)"

text \<open>The patient lookup and the veterinarian lookup of createAppointment.\<close>

definition appointmentPatient :: "CreateAppointmentData \<Rightarrow> World \<Rightarrow> Patient option" where
  "appointmentPatient data w =
     find (\<lambda>p. Patient.id p = CreateAppointmentData.patientId data \<and>
                Patient.clinicId p = CreateAppointmentData.clinicId data \<and>
                Patient.isActive p) (World.patients w)"

definition appointmentVeterinarian :: "string \<Rightarrow> string \<Rightarrow> World \<Rightarrow> User option" where
  "appointmentVeterinarian veterinarianId' clinicId' w =
     find (\<lambda>u. User.id u = veterinarianId' \<and>
                User.role u \<in> set [VETERINARIAN, ADMIN] \<and>
                User.isActive u \<and>
                list_ex (\<lambda>c. c = clinicId') (clinicAccesses u)) (World.users w)"

text \<open>
  The row written by \<open>prisma.appointment.create\<close>: the request's fields, the duration
  defaulted and the status SCHEDULED.  \<open>newId\<close> is the identifier the database generates.
\<close>

definition newAppointment :: "string \<Rightarrow> CreateAppointmentData \<Rightarrow> Appointment" where
  "newAppointment newId data =
     \<lparr> Appointment.id = newId,
       Appointment.clinicId = CreateAppointmentData.clinicId data,
       Appointment.patientId = CreateAppointmentData.patientId data,
       Appointment.veterinarianId = CreateAppointmentData.veterinarianId data,
       Appointment.appointmentDate = CreateAppointmentData.appointmentDate data,
       Appointment.appointmentTime = CreateAppointmentData.appointmentTime data,
       Appointment.duration = or_default (CreateAppointmentData.duration data) 30,
       Appointment.appointmentType = CreateAppointmentData.appointmentType data,
       Appointment.status = SCHEDULED,
       Appointment.reason = CreateAppointmentData.reason data,
       Appointment.notesText = CreateAppointmentData.notesText data \<rparr>"

definition createAppointment ::
  "string \<Rightarrow> CreateAppointmentData \<Rightarrow> World \<Rightarrow> (Thrown + Appointment) \<times> World" where
  "createAppointment newId data w =
     (case appointmentPatient data w of
        None \<Rightarrow>
          (Inl (AppError 404 ''Patient not found or does not belong to this clinic''), w)
      | Some patient \<Rightarrow>
          (case (if truthy (CreateAppointmentData.veterinarianId data)
                 then CreateAppointmentData.veterinarianId data else None) of
             None \<Rightarrow>
               (let appointment = newAppointment newId data
                in (Inr appointment, w\<lparr>World.appointments := World.appointments w @ [appointment]\<rparr>))
           | Some veterinarianId' \<Rightarrow>
               if appointmentVeterinarian veterinarianId' (CreateAppointmentData.clinicId data) w
                    = None
               then (Inl (AppError 404
                       ''Veterinarian not found or does not have access to this clinic''), w)
               else if checkScheduleConflict veterinarianId'
                         (CreateAppointmentData.appointmentDate data)
                         (CreateAppointmentData.appointmentTime data)
                         (or_default (CreateAppointmentData.duration data) 30) None w
               then (Inl (AppError 409
                       ''Veterinarian already has an appointment at this time''), w)
               else
                 (let appointment = newAppointment newId data
                  in (Inr appointment, w\<lparr>World.appointments := World.appointments w @ [appointment]\<rparr>))))"

text \<open>
  The condition of the double-booking claim in the specification's words: some existing
  appointment of the veterinarian on the same date, neither CANCELLED nor NO_SHOW, whose
  interval and the requested interval (the duration defaulting to 30) satisfy
  \<open>start_A < end_B && start_B < end_A\<close>.
\<close>

definition spec_intervalsOverlap :: "string \<Rightarrow> int \<Rightarrow> string \<Rightarrow> int \<Rightarrow> bool" where
  "spec_intervalsOverlap timeA durationA timeB durationB =
     (case (toMinutes timeA, toMinutes timeB) of
        (Some start_A, Some start_B) \<Rightarrow>
          spec_intervals_conflict start_A (start_A + durationA) start_B (start_B + durationB)
      | _ \<Rightarrow> False)"

definition spec_doubleBooked :: "string \<Rightarrow> CreateAppointmentData \<Rightarrow> World \<Rightarrow> bool" where
  "spec_doubleBooked veterinarianId' data w =
     list_ex (\<lambda>a. Appointment.veterinarianId a = Some veterinarianId' \<and>
                   Appointment.appointmentDate a = CreateAppointmentData.appointmentDate data \<and>
                   Appointment.status a \<noteq> AppointmentStatus.CANCELLED \<and>
                   Appointment.status a \<noteq> NO_SHOW \<and>
                   spec_intervalsOverlap (CreateAppointmentData.appointmentTime data)
                     (case CreateAppointmentData.duration data of None \<Rightarrow> 30 | Some d \<Rightarrow> d)
                     (Appointment.appointmentTime a) (Appointment.duration a))
       (World.appointments w)"

text \<open>Stored appointments with a time that parses and a positive duration.\<close>

definition wellFormedAppointment :: "Appointment \<Rightarrow> bool" where
  "wellFormedAppointment a =
     (toMinutes (Appointment.appointmentTime a) \<noteq> None \<and> 0 < Appointment.duration a)"

section \<open>The ORM calls shared by the services\<close>

text \<open>\<open>x || null\<close> on an optional string.\<close>

definition or_null :: "string option \<Rightarrow> string option" where
  "or_null x = (if truthy x then x else None)"

text \<open>
  \<open>{ contains: search, mode: 'insensitive' }\<close>: the needle occurs in the text, letters
  compared without case (ASCII letters here).
\<close>

definition lower_char :: "char \<Rightarrow> char" where
  "lower_char c =
     (let n = (of_char c :: nat) in if 65 \<le> n \<and> n \<le> 90 then char_of (n + 32) else c)"

fun startsWith :: "string \<Rightarrow> string \<Rightarrow> bool" where
  "startsWith text [] = True"
| "startsWith [] (n # needle) = False"
| "startsWith (t # text) (n # needle) = (t = n \<and> startsWith text needle)"

fun includesStr :: "string \<Rightarrow> string \<Rightarrow> bool" where
  "includesStr [] needle = (needle = [])"
| "includesStr (t # text) needle =
     (startsWith (t # text) needle \<or> includesStr text needle)"

definition containsInsensitive :: "string \<Rightarrow> string \<Rightarrow> bool" where
  "containsInsensitive text needle = includesStr (map lower_char text) (map lower_char needle)"

text \<open>The same on a nullable column: \<open>null\<close> matches nothing.\<close>

definition containsInsensitiveOpt :: "string option \<Rightarrow> string \<Rightarrow> bool" where
  "containsInsensitiveOpt text needle =
     (case text of None \<Rightarrow> False | Some t \<Rightarrow> containsInsensitive t needle)"

text \<open>
  \<open>skip\<close> and \<open>take\<close> of \<open>findMany\<close> on the ordered rows: a negative \<open>skip\<close> is rejected,
  a negative \<open>take\<close> counts from the end.
\<close>

definition skipTake :: "int \<Rightarrow> int \<Rightarrow> 'a list \<Rightarrow> 'a list option" where
  "skipTake skip tk rows =
     (if skip < 0 then None
      else if 0 \<le> tk then Some (take (nat tk) (drop (nat skip) rows))
      else Some (rev (take (nat (- tk)) (drop (nat skip) (rev rows)))))"

text \<open>\<open>Math.ceil(total / limit)\<close>; dividing by 0 gives no finite number.\<close>

definition ceilDiv :: "nat \<Rightarrow> int \<Rightarrow> int option" where
  "ceilDiv n limit' =
     (if limit' = 0 then None else Some \<lceil>rat_of_nat n / rat_of_int limit'\<rceil>)"

text \<open>An optional equality filter of a \<open>where\<close> clause, added only for a truthy value.\<close>

definition whereEq :: "string option \<Rightarrow> string \<Rightarrow> bool" where
  "whereEq wanted actual = (if truthy wanted then wanted = Some actual else True)"

section \<open>AppointmentService, reading\<close>

record GetAppointmentsQuery =
  page :: "int option"
  limit :: "int option"
  clinicId :: "string option"
  patientId :: "string option"
  veterinarianId :: "string option"
  status :: "AppointmentStatus option"
  startDate :: "int option"
  endDate :: "int option"
  search :: "string option"

record AppointmentsResult =
  appointments :: "Appointment list"
  total :: nat
  page :: int
  totalPages :: "int option"

definition patientOf :: "World \<Rightarrow> string \<Rightarrow> Patient option" where
  "patientOf w patientId' = find (\<lambda>p. Patient.id p = patientId') (World.patients w)"

definition userOf :: "World \<Rightarrow> string \<Rightarrow> User option" where
  "userOf w userId = find (\<lambda>u. User.id u = userId) (World.users w)"

definition appointmentSearch :: "World \<Rightarrow> string \<Rightarrow> Appointment \<Rightarrow> bool" where
  "appointmentSearch w needle a =
     (containsInsensitive (Appointment.appointmentType a) needle \<or>
      containsInsensitiveOpt (Appointment.reason a) needle \<or>
      containsInsensitiveOpt (Appointment.notesText a) needle \<or>
      (case patientOf w (Appointment.patientId a) of
         None \<Rightarrow> False
       | Some p \<Rightarrow> containsInsensitive (Patient.name p) needle) \<or>
      (case patientOf w (Appointment.patientId a) of
         None \<Rightarrow> False
       | Some p \<Rightarrow>
          (case userOf w (Patient.ownerId p) of
             None \<Rightarrow> False
           | Some owner \<Rightarrow> containsInsensitive (User.name owner) needle)))"

definition appointmentsWhere :: "GetAppointmentsQuery \<Rightarrow> World \<Rightarrow> Appointment \<Rightarrow> bool" where
  "appointmentsWhere query w a =
     (whereEq (GetAppointmentsQuery.clinicId query) (Appointment.clinicId a) \<and>
      whereEq (GetAppointmentsQuery.patientId query) (Appointment.patientId a) \<and>
      (if truthy (GetAppointmentsQuery.veterinarianId query)
       then Appointment.veterinarianId a = GetAppointmentsQuery.veterinarianId query
       else True) \<and>
      (case GetAppointmentsQuery.status query of
         None \<Rightarrow> True | Some st \<Rightarrow> Appointment.status a = st) \<and>
      (case startDate query of None \<Rightarrow> True | Some d \<Rightarrow> d \<le> Appointment.appointmentDate a) \<and>
      (case endDate query of None \<Rightarrow> True | Some d \<Rightarrow> Appointment.appointmentDate a \<le> d) \<and>
      (case GetAppointmentsQuery.search query of
         None \<Rightarrow> True
       | Some needle \<Rightarrow> if needle \<noteq> [] then appointmentSearch w needle a else True))"

definition getAppointments ::
  "GetAppointmentsQuery \<Rightarrow> World \<Rightarrow> Thrown + AppointmentsResult" where
  "getAppointments query w =
     (let page' = (case GetAppointmentsQuery.page query of None \<Rightarrow> 1 | Some v \<Rightarrow> v);
          limit' = (case GetAppointmentsQuery.limit query of None \<Rightarrow> 20 | Some v \<Rightarrow> v);
          skip = (page' - 1) * limit';
          matching = filter (appointmentsWhere query w) (World.appointments w);
          ordered = sort_key (\<lambda>a. (Appointment.appointmentDate a,
                                     Appointment.appointmentTime a)) matching
      in case skipTake skip limit' ordered of
           None \<Rightarrow> Inl PrismaError
         | Some rows \<Rightarrow>
             Inr \<lparr> AppointmentsResult.appointments = rows,
                   AppointmentsResult.total = length matching,
                   AppointmentsResult.page = page',
                   AppointmentsResult.totalPages = ceilDiv (length matching) limit' \<rparr>)"

section \<open>InvoiceService\<close>

record InvoiceItemData =
  productId :: "string option"
  description :: string
  quantity :: double
  unitPrice :: double
  discountPercent :: "double option"

record CreateInvoiceData =
  patientId :: string
  clinicId :: string
  ownerId :: string
  issueDate :: int
  dueDate :: "int option"
  items :: "InvoiceItemData list"
  notesText :: "string option"
  taxAmount :: "double option"
  discountAmount :: "double option"

record UpdateInvoiceData =
  dueDate :: "int option"
  status :: "InvoiceStatus option"
  notesText :: "string option"
  taxAmount :: "double option"
  discountAmount :: "double option"

record CreatePaymentData =
  invoiceId :: string
  amount :: double
  paymentMethod :: PaymentMethod
  transactionId :: "string option"
  notesText :: "string option"

record GetInvoicesQuery =
  page :: "int option"
  limit :: "int option"
  clinicId :: "string option"
  patientId :: "string option"
  ownerId :: "string option"
  status :: "InvoiceStatus option"
  dateFrom :: "int option"
  dateTo :: "int option"
  search :: "string option"

record InvoicesResult =
  invoices :: "Invoice list"
  total :: nat
  page :: int
  totalPages :: "int option"

text \<open>The body of the \<open>map\<close> callback of createInvoice: the row of one item.\<close>

definition invoiceItemRow :: "InvoiceItemData \<Rightarrow> InvoiceItem" where
  "invoiceItemRow item =
     (let totalPrice' = dmul (InvoiceItemData.quantity item) (InvoiceItemData.unitPrice item);
          discountAmount' =
            ddiv (dmul totalPrice' (or_zero (InvoiceItemData.discountPercent item)))
              (Finite 100);
          finalPrice = dsub totalPrice' discountAmount'
      in \<lparr> InvoiceItem.productId = or_null (InvoiceItemData.productId item),
            InvoiceItem.description = InvoiceItemData.description item,
            InvoiceItem.quantity = InvoiceItemData.quantity item,
            InvoiceItem.unitPrice = InvoiceItemData.unitPrice item,
            InvoiceItem.discountPercent = or_zero (InvoiceItemData.discountPercent item),
            InvoiceItem.totalPrice = finalPrice \<rparr>)"

text \<open>
  \<open>data.items.map(...)\<close> with its side effect \<open>subtotal += finalPrice\<close>: the rows and the
  subtotal after the last item.
\<close>

fun invoiceItemsLoop ::
  "InvoiceItemData list \<Rightarrow> double \<Rightarrow> InvoiceItem list \<times> double" where
  "invoiceItemsLoop [] subtotal' = ([], subtotal')"
| "invoiceItemsLoop (item # rest) subtotal' =
     (let row = invoiceItemRow item;
          (rows, subtotal'') =
            invoiceItemsLoop rest (dadd subtotal' (InvoiceItem.totalPrice row))
      in (row # rows, subtotal''))"

definition invoicePatient :: "CreateInvoiceData \<Rightarrow> World \<Rightarrow> Patient option" where
  "invoicePatient data w =
     find (\<lambda>p. Patient.id p = CreateInvoiceData.patientId data \<and>
                Patient.clinicId p = CreateInvoiceData.clinicId data \<and>
                Patient.ownerId p = CreateInvoiceData.ownerId data) (World.patients w)"

text \<open>
  createInvoice.  \<open>newId\<close> is the identifier the database generates, \<open>number\<close> the string
  generateInvoiceNumber returns (it reads the clock and \<open>Math.random\<close>), \<open>now\<close> the
  clock.
\<close>

definition createInvoice ::
  "string \<Rightarrow> string \<Rightarrow> int \<Rightarrow> CreateInvoiceData \<Rightarrow> World \<Rightarrow> (Thrown + Invoice) \<times> World" where
  "createInvoice newId number now data w =
     (case invoicePatient data w of
        None \<Rightarrow> (Inl (AppError 404 ''Patient not found or access denied''), w)
      | Some patient \<Rightarrow>
          (let (items', subtotal') =
                 invoiceItemsLoop (CreateInvoiceData.items data) (Finite 0);
               taxAmount' = or_zero (CreateInvoiceData.taxAmount data);
               discountAmount' = or_zero (CreateInvoiceData.discountAmount data);
               totalAmount' = dsub (dadd subtotal' taxAmount') discountAmount';
               invoice =
                 \<lparr> Invoice.id = newId,
                   Invoice.clinicId = CreateInvoiceData.clinicId data,
                   Invoice.patientId = CreateInvoiceData.patientId data,
                   Invoice.ownerId = CreateInvoiceData.ownerId data,
                   Invoice.invoiceNumber = number,
                   Invoice.issueDate = CreateInvoiceData.issueDate data,
                   Invoice.dueDate = CreateInvoiceData.dueDate data,
                   Invoice.subtotal = subtotal',
                   Invoice.taxAmount = taxAmount',
                   Invoice.discountAmount = discountAmount',
                   Invoice.totalAmount = totalAmount',
                   Invoice.status = DRAFT,
                   Invoice.notesText = or_null (CreateInvoiceData.notesText data),
                   Invoice.items = items',
                   Invoice.updatedAt = now \<rparr>
           in (Inr invoice,
               w\<lparr> World.invoices := World.invoices w @ [invoice],
                  World.emitted := World.emitted w @
                    [\<lparr> room = ''clinic-'' @ CreateInvoiceData.clinicId data,
                       event = ''invoice-created'' \<rparr>] \<rparr>)))"

definition invoiceSearch :: "World \<Rightarrow> string \<Rightarrow> Invoice \<Rightarrow> bool" where
  "invoiceSearch w needle i =
     (containsInsensitive (Invoice.invoiceNumber i) needle \<or>
      (case patientOf w (Invoice.patientId i) of
         None \<Rightarrow> False
       | Some p \<Rightarrow> containsInsensitive (Patient.name p) needle) \<or>
      (case userOf w (Invoice.ownerId i) of
         None \<Rightarrow> False
       | Some owner \<Rightarrow> containsInsensitive (User.name owner) needle))"

definition invoicesWhere :: "GetInvoicesQuery \<Rightarrow> World \<Rightarrow> Invoice \<Rightarrow> bool" where
  "invoicesWhere query w i =
     (whereEq (GetInvoicesQuery.clinicId query) (Invoice.clinicId i) \<and>
      whereEq (GetInvoicesQuery.patientId query) (Invoice.patientId i) \<and>
      whereEq (GetInvoicesQuery.ownerId query) (Invoice.ownerId i) \<and>
      (case GetInvoicesQuery.status query of
         None \<Rightarrow> True | Some st \<Rightarrow> Invoice.status i = st) \<and>
      (case dateFrom query of None \<Rightarrow> True | Some d \<Rightarrow> d \<le> Invoice.issueDate i) \<and>
      (case dateTo query of None \<Rightarrow> True | Some d \<Rightarrow> Invoice.issueDate i \<le> d) \<and>
      (case GetInvoicesQuery.search query of
         None \<Rightarrow> True
       | Some needle \<Rightarrow> if needle \<noteq> [] then invoiceSearch w needle i else True))"

definition getInvoices :: "GetInvoicesQuery \<Rightarrow> World \<Rightarrow> Thrown + InvoicesResult" where
  "getInvoices query w =
     (let page' = (case GetInvoicesQuery.page query of None \<Rightarrow> 1 | Some v \<Rightarrow> v);
          limit' = (case GetInvoicesQuery.limit query of None \<Rightarrow> 20 | Some v \<Rightarrow> v);
          skip = (page' - 1) * limit';
          matching = filter (invoicesWhere query w) (World.invoices w);
          ordered = rev (sort_key Invoice.issueDate matching)
      in case skipTake skip limit' ordered of
           None \<Rightarrow> Inl PrismaError
         | Some rows \<Rightarrow>
             Inr \<lparr> InvoicesResult.invoices = rows,
                   InvoicesResult.total = length matching,
                   InvoicesResult.page = page',
                   InvoicesResult.totalPages = ceilDiv (length matching) limit' \<rparr>)"

text \<open>
  \<open>findFirst({ where })\<close> with \<open>where = { id }\<close> and the clinic added when it is truthy:
  the lookup that getInvoiceById, updateInvoice and deleteInvoice start with.
\<close>

definition findInvoice :: "string \<Rightarrow> string option \<Rightarrow> World \<Rightarrow> Invoice option" where
  "findInvoice id' clinicId' w =
     find (\<lambda>i. Invoice.id i = id' \<and> whereEq clinicId' (Invoice.clinicId i)) (World.invoices w)"

definition getInvoiceById :: "string \<Rightarrow> string option \<Rightarrow> World \<Rightarrow> Thrown + Invoice" where
  "getInvoiceById id' clinicId' w =
     (case findInvoice id' clinicId' w of
        None \<Rightarrow> Inl (AppError 404 ''Invoice not found'')
      | Some invoice \<Rightarrow> Inr invoice)"

text \<open>
  The row after \<open>data: { ...data, updatedAt: new Date() }\<close>: a field the request leaves
  undefined keeps its value.
\<close>

definition applyInvoiceUpdate :: "UpdateInvoiceData \<Rightarrow> int \<Rightarrow> Invoice \<Rightarrow> Invoice" where
  "applyInvoiceUpdate data now i =
     i\<lparr> Invoice.dueDate :=
          (case UpdateInvoiceData.dueDate data of None \<Rightarrow> Invoice.dueDate i | Some d \<Rightarrow> Some d),
        Invoice.status :=
          (case UpdateInvoiceData.status data of None \<Rightarrow> Invoice.status i | Some st \<Rightarrow> st),
        Invoice.notesText :=
          (case UpdateInvoiceData.notesText data of
             None \<Rightarrow> Invoice.notesText i | Some n \<Rightarrow> Some n),
        Invoice.taxAmount :=
          (case UpdateInvoiceData.taxAmount data of None \<Rightarrow> Invoice.taxAmount i | Some t \<Rightarrow> t),
        Invoice.discountAmount :=
          (case UpdateInvoiceData.discountAmount data of
             None \<Rightarrow> Invoice.discountAmount i | Some d \<Rightarrow> d),
        Invoice.updatedAt := now \<rparr>"

text \<open>\<open>prisma.invoice.update({ where: { id }, data })\<close> on the table.\<close>

definition updateInvoiceRow :: "string \<Rightarrow> (Invoice \<Rightarrow> Invoice) \<Rightarrow> Invoice list \<Rightarrow> Invoice list" where
  "updateInvoiceRow id' change rows = map (\<lambda>i. if Invoice.id i = id' then change i else i) rows"

definition updateInvoice ::
  "int \<Rightarrow> string \<Rightarrow> UpdateInvoiceData \<Rightarrow> string option \<Rightarrow> World \<Rightarrow> (Thrown + Invoice) \<times> World" where
  "updateInvoice now id' data clinicId' w =
     (case findInvoice id' clinicId' w of
        None \<Rightarrow> (Inl (AppError 404 ''Invoice not found''), w)
      | Some existingInvoice \<Rightarrow>
          if Invoice.status existingInvoice = PAID
          then (Inl (AppError 400 ''Cannot modify a paid invoice''), w)
          else
            (let updatedInvoice = applyInvoiceUpdate data now existingInvoice;
                 w' = w\<lparr> World.invoices :=
                          updateInvoiceRow id' (applyInvoiceUpdate data now) (World.invoices w) \<rparr>
             in (Inr updatedInvoice,
                 case (if truthy clinicId' then clinicId' else None) of
                   None \<Rightarrow> w'
                 | Some c \<Rightarrow>
                     w'\<lparr> World.emitted := World.emitted w' @
                           [\<lparr> room = ''clinic-'' @ c, event = ''invoice-updated'' \<rparr>] \<rparr>)))"

text \<open>The stored row of an invoice, as \<open>findUnique({ where: { id } })\<close> reads it.\<close>

definition storedInvoice :: "World \<Rightarrow> string \<Rightarrow> Invoice option" where
  "storedInvoice w id' = find (\<lambda>i. Invoice.id i = id') (World.invoices w)"

text \<open>\<open>invoice.payments\<close> of \<open>include: { payments: true }\<close>.\<close>

definition paymentsOf :: "World \<Rightarrow> string \<Rightarrow> Payment list" where
  "paymentsOf w invoiceId' = filter (\<lambda>p. Payment.invoiceId p = invoiceId') (World.payments w)"

text \<open>
  The \<open>reduce\<close> of createPayment: from 0, each payment in turn adds its amount when its
  status is SUCCESS and 0 otherwise, every addition rounded.
\<close>

definition paidAmountOf :: "Payment list \<Rightarrow> double" where
  "paidAmountOf ps =
     foldl (\<lambda>sum payment.
              dadd sum (if Payment.status payment = SUCCESS then Payment.amount payment
                        else Finite 0))
       (Finite 0) ps"

text \<open>The status createPayment computes from the amount paid after the new payment.\<close>

definition paymentStatusAfter :: "Invoice \<Rightarrow> double \<Rightarrow> InvoiceStatus" where
  "paymentStatusAfter invoice newPaidAmount =
     (if dge newPaidAmount (Invoice.totalAmount invoice) then PAID
      else if dgt newPaidAmount (Finite 0) then PARTIAL
      else Invoice.status invoice)"

definition createPayment ::
  "string \<Rightarrow> int \<Rightarrow> CreatePaymentData \<Rightarrow> World
     \<Rightarrow> (Thrown + Payment \<times> Invoice option) \<times> World" where
  "createPayment newId now data w =
     (case storedInvoice w (CreatePaymentData.invoiceId data) of
        None \<Rightarrow> (Inl (AppError 404 ''Invoice not found''), w)
      | Some invoice \<Rightarrow>
          (let paidAmount = paidAmountOf (paymentsOf w (Invoice.id invoice));
               remainingAmount = dsub (Invoice.totalAmount invoice) paidAmount
           in if dgt (CreatePaymentData.amount data) remainingAmount
              then (Inl (AppError 400 ''Payment amount exceeds remaining balance''), w)
              else
                (let payment =
                       \<lparr> Payment.id = newId,
                         Payment.invoiceId = CreatePaymentData.invoiceId data,
                         Payment.amount = CreatePaymentData.amount data,
                         Payment.paymentMethod = CreatePaymentData.paymentMethod data,
                         Payment.transactionId = or_null (CreatePaymentData.transactionId data),
                         Payment.status = SUCCESS,
                         Payment.paymentDate = now,
                         Payment.notesText = or_null (CreatePaymentData.notesText data) \<rparr>;
                     w1 = w\<lparr> World.payments := World.payments w @ [payment] \<rparr>;
                     newPaidAmount = dadd paidAmount (CreatePaymentData.amount data);
                     newStatus = paymentStatusAfter invoice newPaidAmount;
                     w2 = (if newStatus \<noteq> Invoice.status invoice
                           then w1\<lparr> World.invoices :=
                                      updateInvoiceRow (CreatePaymentData.invoiceId data)
                                        (\<lambda>i. i\<lparr> Invoice.status := newStatus \<rparr>)
                                        (World.invoices w1) \<rparr>
                           else w1);
                     updatedInvoice = storedInvoice w2 (CreatePaymentData.invoiceId data);
                     w3 = w2\<lparr> World.emitted := World.emitted w2 @
                                [\<lparr> room = ''clinic-'' @ Invoice.clinicId invoice,
                                   event = ''payment-received'' \<rparr>] \<rparr>
                 in (Inr (payment, updatedInvoice), w3))))"

definition deleteInvoice ::
  "int \<Rightarrow> string \<Rightarrow> string option \<Rightarrow> World \<Rightarrow> (Thrown + unit) \<times> World" where
  "deleteInvoice now id' clinicId' w =
     (case findInvoice id' clinicId' w of
        None \<Rightarrow> (Inl (AppError 404 ''Invoice not found''), w)
      | Some invoice \<Rightarrow>
          if length (paymentsOf w (Invoice.id invoice)) > 0
          then (Inr (),
                w\<lparr> World.invoices :=
                     updateInvoiceRow id'
                       (\<lambda>i. i\<lparr> Invoice.status := InvoiceStatus.CANCELLED,
                                 Invoice.updatedAt := now \<rparr>)
                       (World.invoices w) \<rparr>)
          else (Inr (),
                w\<lparr> World.invoices := filter (\<lambda>i. Invoice.id i \<noteq> id') (World.invoices w) \<rparr>))"

section \<open>PatientController\<close>

text \<open>
  The handlers take \<open>req.user?.clinicId\<close> and the request's parameters, and answer with a
  status code, the \<open>success\<close> flag and a body (\<open>dataRows\<close> is the \<open>data\<close> field of the
  body).  A \<open>where\<close> field that is \<open>undefined\<close> is no condition.
\<close>

record PatientsQuery =
  page :: "int option"
  limit :: "int option"
  search :: "string option"
  species :: "string option"
  breed :: "string option"

datatype 'a Response = Response nat bool 'a

record PatientsBody =
  dataRows :: "Patient list"
  page :: int
  limit :: int
  total :: nat
  totalPages :: "int option"

record MessageBody =
  message :: string

definition patientsWhere :: "string option \<Rightarrow> PatientsQuery \<Rightarrow> Patient \<Rightarrow> bool" where
  "patientsWhere clinicId' query p =
     ((case clinicId' of None \<Rightarrow> True | Some c \<Rightarrow> Patient.clinicId p = c) \<and>
      Patient.isActive p \<and>
      (case PatientsQuery.search query of
         None \<Rightarrow> True
       | Some needle \<Rightarrow>
           if needle \<noteq> []
           then containsInsensitive (Patient.name p) needle \<or>
                containsInsensitive (Patient.species p) needle \<or>
                containsInsensitiveOpt (Patient.breed p) needle
           else True) \<and>
      (if truthy (PatientsQuery.species query)
       then PatientsQuery.species query = Some (Patient.species p) else True) \<and>
      (if truthy (PatientsQuery.breed query)
       then PatientsQuery.breed query = Patient.breed p else True))"

definition getAllPatients ::
  "string option \<Rightarrow> PatientsQuery \<Rightarrow> World \<Rightarrow> (PatientsBody + MessageBody) Response" where
  "getAllPatients clinicId' query w =
     (let page' = (case PatientsQuery.page query of None \<Rightarrow> 1 | Some v \<Rightarrow> v);
          limit' = (case PatientsQuery.limit query of None \<Rightarrow> 10 | Some v \<Rightarrow> v);
          skip = (page' - 1) * limit';
          matching = filter (patientsWhere clinicId' query) (World.patients w);
          ordered = rev (sort_key Patient.createdAt matching)
      in case skipTake skip limit' ordered of
           None \<Rightarrow> Response 500 False (Inr \<lparr> message = ''Failed to fetch patients'' \<rparr>)
         | Some rows \<Rightarrow>
             Response 200 True
               (Inl \<lparr> PatientsBody.dataRows = rows, PatientsBody.page = page',
                      PatientsBody.limit = limit', PatientsBody.total = length matching,
                      PatientsBody.totalPages = ceilDiv (length matching) limit' \<rparr>))"

definition findPatient :: "string \<Rightarrow> string option \<Rightarrow> World \<Rightarrow> Patient option" where
  "findPatient id' clinicId' w =
     find (\<lambda>p. Patient.id p = id' \<and>
                (case clinicId' of None \<Rightarrow> True | Some c \<Rightarrow> Patient.clinicId p = c))
       (World.patients w)"

definition deletePatient ::
  "string option \<Rightarrow> string \<Rightarrow> World \<Rightarrow> MessageBody Response \<times> World" where
  "deletePatient clinicId' id' w =
     (case findPatient id' clinicId' w of
        None \<Rightarrow> (Response 404 False \<lparr> message = ''Patient not found'' \<rparr>, w)
      | Some existingPatient \<Rightarrow>
          (Response 200 True \<lparr> message = ''Patient deleted successfully'' \<rparr>,
           w\<lparr> World.patients :=
                map (\<lambda>p. if Patient.id p = id' then p\<lparr> Patient.isActive := False \<rparr> else p)
                  (World.patients w) \<rparr>))"

section \<open>Example data\<close>

definition vet1 :: User where
  "vet1 = \<lparr> User.id = ''vet1'', User.name = ''Dr Sari'', User.role = VETERINARIAN,
             User.isActive = True, clinicAccesses = [''clinicA''] \<rparr>"

definition patient1 :: Patient where
  "patient1 = \<lparr> Patient.id = ''pat1'', Patient.clinicId = ''clinicA'',
                 Patient.ownerId = ''owner1'', Patient.name = ''Milo'', species = ''cat'',
                 breed = None, microchipId = None, Patient.isActive = True,
                 createdAt = 100, Patient.updatedAt = 100 \<rparr>"

definition appointment1 :: Appointment where
  "appointment1 = \<lparr> Appointment.id = ''apt1'', Appointment.clinicId = ''clinicA'',
                     Appointment.patientId = ''pat1'',
                     Appointment.veterinarianId = Some ''vet1'',
                     Appointment.appointmentDate = 86400000,
                     Appointment.appointmentTime = ''10:00'', Appointment.duration = 30,
                     Appointment.appointmentType = ''Vaccination'',
                     Appointment.status = CONFIRMED, Appointment.reason = None,
                     Appointment.notesText = None \<rparr>"

definition world1 :: World where
  "world1 = \<lparr> World.users = [vet1], World.patients = [patient1], World.appointments = [appointment1],
               World.invoices = [], World.payments = [], World.emitted = [] \<rparr>"

text \<open>A request for 09:30 to 10:15 with the veterinarian of \<open>appointment1\<close>, and one without.\<close>

definition request1 :: CreateAppointmentData where
  "request1 = \<lparr> CreateAppointmentData.clinicId = ''clinicA'',
                 CreateAppointmentData.patientId = ''pat1'',
                 CreateAppointmentData.veterinarianId = Some ''vet1'',
                 CreateAppointmentData.appointmentDate = 86400000,
                 CreateAppointmentData.appointmentTime = ''09:30'',
                 CreateAppointmentData.duration = Some 45,
                 CreateAppointmentData.appointmentType = ''Consultation'',
                 CreateAppointmentData.reason = None,
                 CreateAppointmentData.notesText = None \<rparr>"

definition request2 :: CreateAppointmentData where
  "request2 = request1\<lparr> CreateAppointmentData.veterinarianId := None,
                         CreateAppointmentData.duration := None \<rparr>"

text \<open>An invoice of clinic A with one payment of 40 out of 100, and an invoice of clinic B.\<close>

definition invoice1 :: Invoice where
  "invoice1 = \<lparr> Invoice.id = ''inv1'', Invoice.clinicId = ''clinicA'',
                 Invoice.patientId = ''pat1'', Invoice.ownerId = ''owner1'',
                 Invoice.invoiceNumber = ''INV-nicA-202401-0001'', Invoice.issueDate = 1000,
                 Invoice.dueDate = None, Invoice.subtotal = Finite 100,
                 Invoice.taxAmount = Finite 0, Invoice.discountAmount = Finite 0,
                 Invoice.totalAmount = Finite 100,
                 Invoice.status = SENT, Invoice.notesText = None, Invoice.items = [],
                 Invoice.updatedAt = 1000 \<rparr>"

definition invoice2 :: Invoice where
  "invoice2 = invoice1\<lparr> Invoice.id := ''inv2'', Invoice.clinicId := ''clinicB'',
                         Invoice.patientId := ''pat9'', Invoice.issueDate := 2000,
                         Invoice.status := PAID \<rparr>"

definition payment1 :: Payment where
  "payment1 = \<lparr> Payment.id = ''pay1'', Payment.invoiceId = ''inv1'',
                 Payment.amount = Finite 40,
                 Payment.paymentMethod = CASH, Payment.transactionId = None,
                 Payment.status = SUCCESS, Payment.paymentDate = 1500,
                 Payment.notesText = None \<rparr>"

definition world2 :: World where
  "world2 = world1\<lparr> World.invoices := [invoice1, invoice2], World.payments := [payment1] \<rparr>"

definition paymentRequest :: "rat \<Rightarrow> CreatePaymentData" where
  "paymentRequest a = \<lparr> CreatePaymentData.invoiceId = ''inv1'',
                         CreatePaymentData.amount = Finite a,
                         CreatePaymentData.paymentMethod = TRANSFER,
                         CreatePaymentData.transactionId = None,
                         CreatePaymentData.notesText = None \<rparr>"

text \<open>Two items: 2 at 50 with 10 percent off, and 1 at 25; tax 12, no discount.\<close>

definition invoiceRequest :: CreateInvoiceData where
  "invoiceRequest =
     \<lparr> CreateInvoiceData.patientId = ''pat1'', CreateInvoiceData.clinicId = ''clinicA'',
       CreateInvoiceData.ownerId = ''owner1'', CreateInvoiceData.issueDate = 3000,
       CreateInvoiceData.dueDate = None,
       CreateInvoiceData.items =
         [\<lparr> InvoiceItemData.productId = None, InvoiceItemData.description = ''Vaccine'',
            InvoiceItemData.quantity = Finite 2, InvoiceItemData.unitPrice = Finite 50,
            InvoiceItemData.discountPercent = Some (Finite 10) \<rparr>,
          \<lparr> InvoiceItemData.productId = None, InvoiceItemData.description = ''Consultation'',
            InvoiceItemData.quantity = Finite 1, InvoiceItemData.unitPrice = Finite 25,
            InvoiceItemData.discountPercent = None \<rparr>],
       CreateInvoiceData.notesText = None, CreateInvoiceData.taxAmount = Some (Finite 12),
       CreateInvoiceData.discountAmount = None \<rparr>"

definition emptyInvoicesQuery :: GetInvoicesQuery where
  "emptyInvoicesQuery =
     \<lparr> GetInvoicesQuery.page = None, GetInvoicesQuery.limit = None,
       GetInvoicesQuery.clinicId = None, GetInvoicesQuery.patientId = None,
       GetInvoicesQuery.ownerId = None, GetInvoicesQuery.status = None,
       dateFrom = None, dateTo = None, GetInvoicesQuery.search = None \<rparr>"

definition emptyAppointmentsQuery :: GetAppointmentsQuery where
  "emptyAppointmentsQuery =
     \<lparr> GetAppointmentsQuery.page = None, GetAppointmentsQuery.limit = None,
       GetAppointmentsQuery.clinicId = None, GetAppointmentsQuery.patientId = None,
       GetAppointmentsQuery.veterinarianId = None, GetAppointmentsQuery.status = None,
       startDate = None, endDate = None, GetAppointmentsQuery.search = None \<rparr>"

definition emptyPatientsQuery :: PatientsQuery where
  "emptyPatientsQuery =
     \<lparr> PatientsQuery.page = None, PatientsQuery.limit = None, PatientsQuery.search = None,
       PatientsQuery.species = None, PatientsQuery.breed = None \<rparr>"

definition statusUpdate :: "InvoiceStatus \<Rightarrow> UpdateInvoiceData" where
  "statusUpdate st = \<lparr> UpdateInvoiceData.dueDate = None, UpdateInvoiceData.status = Some st,
       UpdateInvoiceData.notesText = None, UpdateInvoiceData.taxAmount = None,
       UpdateInvoiceData.discountAmount = None \<rparr>"

definition patient9 :: Patient where
  "patient9 = patient1\<lparr> Patient.id := ''pat9'', Patient.clinicId := ''clinicB'',
                         Patient.createdAt := 200 \<rparr>"

definition appointment9 :: Appointment where
  "appointment9 = appointment1\<lparr> Appointment.id := ''apt9'', Appointment.clinicId := ''clinicB'',
                                 Appointment.patientId := ''pat9'',
                                 Appointment.veterinarianId := None \<rparr>"

text \<open>Two clinics side by side.\<close>

definition world3 :: World where
  "world3 = world2\<lparr> World.patients := [patient1, patient9],
                     World.appointments := [appointment1, appointment9] \<rparr>"

text \<open>A call that returned, as opposed to one that threw.\<close>

definition succeeded :: "'e + 'a \<Rightarrow> bool" where
  "succeeded r = (case r of Inl _ \<Rightarrow> False | Inr _ \<Rightarrow> True)"

text \<open>
  An invoice with the total \<open>t\<close> and one SUCCESS payment of \<open>p\<close> so far; the amounts are
  given by the exact values of the doubles.
\<close>

definition moneyWorld :: "rat \<Rightarrow> rat \<Rightarrow> World" where
  "moneyWorld t p =
     world1\<lparr> World.invoices := [invoice1\<lparr> Invoice.subtotal := Finite t,
                                             Invoice.totalAmount := Finite t \<rparr>],
             World.payments := [payment1\<lparr> Payment.amount := Finite p \<rparr>] \<rparr>"


text \<open>
  The paid amount in the words of the claims on payments: the amounts of the SUCCESS
  payments of the invoice, added up; the additions are those of doubles, from 0, in the
  order of the rows.
\<close>

definition spec_successTotal :: "World \<Rightarrow> string \<Rightarrow> double" where
  "spec_successTotal w invoiceId' =
     foldl dadd (Finite 0)
       (map Payment.amount
          (filter (\<lambda>p. Payment.invoiceId p = invoiceId' \<and> Payment.status p = SUCCESS)
             (World.payments w)))"


text \<open>A value a JavaScript number can hold: a rational only if it is a double.\<close>

definition isDouble :: "double \<Rightarrow> bool" where
  "isDouble a = (case a of Finite x \<Rightarrow> representable x | _ \<Rightarrow> True)"

section \<open>Theorems\<close>

subsection \<open>The overlap test\<close>

lemma toMinutes_0930: "toMinutes ''09:30'' = Some 570"
  by (simp add: toMinutes_def parseTime_def Number_js_def digit_of_def js_add_def js_mul_def)

lemma toMinutes_1000: "toMinutes ''10:00'' = Some 600"
  by (simp add: toMinutes_def parseTime_def Number_js_def digit_of_def js_add_def js_mul_def)

lemma timesConflict_Some:
  assumes "toMinutes tA = Some sA" and "toMinutes tB = Some sB"
  shows "timesConflict tA dA tB dB =
     ((sB \<le> sA \<and> sA < sB + dB) \<or> (sB < sA + dA \<and> sA + dA \<le> sB + dB) \<or>
      (sA \<le> sB \<and> sB + dB \<le> sA + dA))"
  using assms
  by (simp add: timesConflict_def overlapTest_def js_add_def js_lt_def js_le_def js_gt_def
      js_ge_def)

text \<open>Every time written as two digits, a colon and two digits parses.\<close>

lemma digit_not_colon: "digit_of a = Some x \<Longrightarrow> a \<noteq> CHR '':''"
  by (auto simp: digit_of_def)

lemma toMinutes_HHMM:
  assumes "digit_of a = Some x" and "digit_of b = Some y"
    and "digit_of c = Some u" and "digit_of d = Some v"
  shows "toMinutes [a, b, CHR '':'', c, d] = Some ((10 * x + y) * 60 + (10 * u + v))"
  using assms digit_not_colon [OF assms(1)] digit_not_colon [OF assms(2)]
    digit_not_colon [OF assms(3)] digit_not_colon [OF assms(4)]
  by (simp add: toMinutes_def parseTime_def Number_js_def js_add_def js_mul_def)

text \<open>
  C1.  For a requested time and an existing time that parse to start minutes \<open>sA\<close> and
  \<open>sB\<close>, and positive durations, the three-way disjunction tested by
  checkScheduleConflict holds exactly when the intervals \<open>[sA, sA + dA)\<close> and
  \<open>[sB, sB + dB)\<close> satisfy the rule \<open>start_A < end_B && start_B < end_A\<close>.
\<close>

theorem C1_overlapTest_is_interval_rule:
  assumes "toMinutes tA = Some sA" and "toMinutes tB = Some sB"
    and "0 < dA" and "0 < dB"
  shows "timesConflict tA dA tB dB = spec_intervals_conflict sA (sA + dA) sB (sB + dB)"
  using assms(3,4) unfolding timesConflict_Some [OF assms(1,2)] spec_intervals_conflict_def
  by arith

theorem C1_overlapTest_is_interval_rule_witness:
  "timesConflict ''09:30'' 45 ''10:00'' 30 = spec_intervals_conflict 570 (570 + 45) 600 (600 + 30)
   \<and> timesConflict ''09:30'' 45 ''10:00'' 30"
  using C1_overlapTest_is_interval_rule [OF toMinutes_0930 toMinutes_1000, of 45 30]
  by (simp add: spec_intervals_conflict_def)

subsection \<open>createAppointment\<close>

lemmas eval_time = toMinutes_def parseTime_def Number_js_def digit_of_def js_add_def js_mul_def

lemmas eval_appointments =
  createAppointment_def appointmentPatient_def appointmentVeterinarian_def
  checkScheduleConflict_def conflictWhere_def newAppointment_def overlapTest_def
  js_lt_def js_le_def js_gt_def js_ge_def or_default_def truthy_def
  spec_doubleBooked_def spec_intervalsOverlap_def spec_intervals_conflict_def
  wellFormedAppointment_def
  world1_def request1_def request2_def vet1_def patient1_def appointment1_def

lemma conflictLoop_list_ex:
  "conflictLoop s e xs =
     list_ex (\<lambda>a. overlapTest s e (toMinutes (Appointment.appointmentTime a))
                 (js_add (toMinutes (Appointment.appointmentTime a))
                    (Some (Appointment.duration a)))) xs"
  by (induction xs) (simp_all add: Let_def)

text \<open>The loop applies \<open>timesConflict\<close> to each existing appointment.\<close>

lemma conflictLoop_timesConflict:
  "conflictLoop (toMinutes t) (js_add (toMinutes t) (Some d)) xs =
     list_ex (\<lambda>a. timesConflict t d (Appointment.appointmentTime a) (Appointment.duration a))
       xs"
  by (simp add: conflictLoop_list_ex timesConflict_def Let_def)

lemma overlapTest_interval_rule:
  assumes "0 < dA" and "0 < dB"
  shows "overlapTest (Some sA) (Some (sA + dA)) (Some sB) (Some (sB + dB)) =
         spec_intervals_conflict sA (sA + dA) sB (sB + dB)"
  using assms
  by (simp add: overlapTest_def js_lt_def js_le_def js_gt_def js_ge_def
      spec_intervals_conflict_def) arith

lemma overlapTest_spec_intervalsOverlap:
  assumes "toMinutes t = Some s" and "0 < d" and "wellFormedAppointment a"
  shows "overlapTest (Some s) (Some (s + d)) (toMinutes (Appointment.appointmentTime a))
           (js_add (toMinutes (Appointment.appointmentTime a))
              (Some (Appointment.duration a))) =
         spec_intervalsOverlap t d (Appointment.appointmentTime a) (Appointment.duration a)"
proof -
  from assms(3) obtain m where m: "toMinutes (Appointment.appointmentTime a) = Some m"
    and pos: "0 < Appointment.duration a"
    by (auto simp: wellFormedAppointment_def)
  show ?thesis
    using overlapTest_interval_rule [OF assms(2) pos, of s m]
    by (simp add: m assms(1) spec_intervalsOverlap_def js_add_def)
qed

lemma checkScheduleConflict_spec:
  assumes t: "toMinutes t = Some s" and d: "0 < d"
    and wf: "\<forall>a\<in>set (World.appointments w). wellFormedAppointment a"
  shows "checkScheduleConflict v date t d None w =
     list_ex (\<lambda>a. Appointment.veterinarianId a = Some v \<and>
                   Appointment.appointmentDate a = date \<and>
                   Appointment.status a \<noteq> AppointmentStatus.CANCELLED \<and>
                   Appointment.status a \<noteq> NO_SHOW \<and>
                   spec_intervalsOverlap t d (Appointment.appointmentTime a)
                     (Appointment.duration a))
       (World.appointments w)"
  using wf overlapTest_spec_intervalsOverlap [OF t d]
  by (auto simp: checkScheduleConflict_def conflictLoop_list_ex list_ex_iff t js_add_def
      conflictWhere_def)

lemma or_default_positive:
  assumes "case x of None \<Rightarrow> True | Some v \<Rightarrow> 0 < v"
  shows "or_default x 30 = (case x of None \<Rightarrow> 30 | Some v \<Rightarrow> v)" and "0 < or_default x 30"
  using assms by (auto simp: or_default_def split: option.splits)

lemma createAppointment_error_keeps_world:
  "fst (createAppointment newId data w) = Inl e \<Longrightarrow> snd (createAppointment newId data w) = w"
  by (auto simp: createAppointment_def Let_def split: option.splits if_splits)

text \<open>
  C2, as the claim states it, fails: the patient lookup comes first, so a request whose
  patient is not an active patient of the clinic is answered with 404 although an
  appointment of the veterinarian overlaps it.
\<close>

theorem C2_counterexample_patient_missing:
  "spec_doubleBooked ''vet1'' request1 (world1\<lparr>World.patients := []\<rparr>) \<and>
   fst (createAppointment ''apt2'' request1 (world1\<lparr>World.patients := []\<rparr>)) =
     Inl (AppError 404 ''Patient not found or does not belong to this clinic'') \<and>
   fst (createAppointment ''apt2'' request1 (world1\<lparr>World.patients := []\<rparr>)) \<noteq>
     Inl (AppError 409 ''Veterinarian already has an appointment at this time'')"
  by (simp add: eval_appointments eval_time)

text \<open>
  C2, amended.  When the patient lookup and the veterinarian lookup both succeed, and the
  times parse and the durations are positive, createAppointment called with a
  veterinarianId fails with the 409 error exactly when some existing appointment of that
  veterinarian on the same date, neither CANCELLED nor NO_SHOW, overlaps the requested
  interval (the duration defaulting to 30); on that failure nothing is written.
\<close>

theorem C2_conflict_iff_double_booked:
  assumes patient: "appointmentPatient data w = Some p"
    and vet: "CreateAppointmentData.veterinarianId data = Some v" "v \<noteq> []"
    and vetOk: "appointmentVeterinarian v (CreateAppointmentData.clinicId data) w = Some u"
    and time: "toMinutes (CreateAppointmentData.appointmentTime data) = Some s"
    and dur: "case CreateAppointmentData.duration data of None \<Rightarrow> True | Some d \<Rightarrow> 0 < d"
    and stored: "\<forall>a\<in>set (World.appointments w). wellFormedAppointment a"
  shows "(fst (createAppointment newId data w) =
            Inl (AppError 409 ''Veterinarian already has an appointment at this time'')) =
         spec_doubleBooked v data w
       \<and> (fst (createAppointment newId data w) =
            Inl (AppError 409 ''Veterinarian already has an appointment at this time'') \<longrightarrow>
          snd (createAppointment newId data w) = w)"
proof -
  have c: "checkScheduleConflict v (CreateAppointmentData.appointmentDate data)
             (CreateAppointmentData.appointmentTime data)
             (or_default (CreateAppointmentData.duration data) 30) None w =
           spec_doubleBooked v data w"
    unfolding spec_doubleBooked_def
    using checkScheduleConflict_spec [OF time or_default_positive(2) [OF dur] stored]
    by (simp add: or_default_positive(1) [OF dur])
  have "(fst (createAppointment newId data w) =
            Inl (AppError 409 ''Veterinarian already has an appointment at this time'')) =
         spec_doubleBooked v data w"
    using c by (simp add: createAppointment_def patient vet vetOk truthy_def Let_def)
  then show ?thesis
    using createAppointment_error_keeps_world by blast
qed

theorem C2_conflict_iff_double_booked_witness:
  "fst (createAppointment ''apt2'' request1 world1) =
     Inl (AppError 409 ''Veterinarian already has an appointment at this time'') \<and>
   spec_doubleBooked ''vet1'' request1 world1 \<and>
   snd (createAppointment ''apt2'' request1 world1) = world1"
proof -
  have p: "appointmentPatient request1 world1 = Some patient1"
    by (simp add: eval_appointments)
  have v: "CreateAppointmentData.veterinarianId request1 = Some ''vet1''" "''vet1'' \<noteq> []"
    by (simp_all add: request1_def)
  have u: "appointmentVeterinarian ''vet1'' (CreateAppointmentData.clinicId request1) world1
             = Some vet1"
    by (simp add: eval_appointments)
  have t: "toMinutes (CreateAppointmentData.appointmentTime request1) = Some 570"
    by (simp add: request1_def toMinutes_0930)
  have d: "case CreateAppointmentData.duration request1 of None \<Rightarrow> True | Some d \<Rightarrow> 0 < d"
    by (simp add: request1_def)
  have s: "\<forall>a\<in>set (World.appointments world1). wellFormedAppointment a"
    by (simp add: world1_def appointment1_def wellFormedAppointment_def toMinutes_1000)
  have b: "spec_doubleBooked ''vet1'' request1 world1"
    by (simp add: eval_appointments toMinutes_0930 toMinutes_1000)
  show ?thesis
    using C2_conflict_iff_double_booked [OF p v u t d s, of "''apt2''"] b by simp
qed



subsection \<open>Rounding to a double\<close>

lemma pow2_powi: "pow2 k = 2 powi k"
  by (simp add: pow2_def power_int_def field_simps)

lemma pow2_pos: "0 < pow2 k"
  by (simp add: pow2_def)

lemma pow2_add: "pow2 (a + b) = pow2 a * pow2 b"
  by (simp add: pow2_powi power_int_add)

lemma pow2_nat: "pow2 (int k) = 2 ^ k"
  by (simp add: pow2_def)

lemma pow2_mono: "a \<le> b \<Longrightarrow> pow2 a \<le> pow2 b"
  by (simp add: pow2_powi power_int_increasing)

lemma bitlen_eqI:
  assumes "2 ^ k \<le> m" and "m < 2 ^ (k + 1)"
  shows "bitlen m = int k + 1"
proof -
  have "0 < m" using assms(1) by (smt (verit) zero_less_power)
  from bitlen_bounds [OF this] have b: "2 ^ nat (bitlen m - 1) \<le> m" "m < 2 ^ nat (bitlen m)"
    by auto
  have "(2::int) ^ k < 2 ^ nat (bitlen m)" using assms(1) b(2) by linarith
  then have 1: "k < nat (bitlen m)" by (rule power_less_imp_less_exp [rotated]) simp
  have "(2::int) ^ nat (bitlen m - 1) < 2 ^ (k + 1)" using assms(2) b(1) by linarith
  then have 2: "nat (bitlen m - 1) < k + 1" by (rule power_less_imp_less_exp [rotated]) simp
  from 1 2 show ?thesis by linarith
qed

lemma quantum_exp_binade:
  assumes lo: "pow2 e \<le> \<bar>x\<bar>" and hi: "\<bar>x\<bar> < pow2 (e + 1)" and e: "- 1074 \<le> e"
  shows "quantum_exp x = max (e - 52) (- 1074)"
proof -
  define k where "k = nat (e + 1074)"
  have ke: "int k = e + 1074" using e by (simp add: k_def)
  have p: "pow2 e * pow2 1074 = 2 ^ k"
    using pow2_add [of e 1074] pow2_nat [of k] by (simp add: ke)
  have p1: "pow2 (e + 1) * pow2 1074 = 2 ^ (k + 1)"
    using pow2_add [of "e + 1" 1074] pow2_nat [of "k + 1"]
    by (simp add: ke add.commute add.left_commute)
  have "pow2 e * pow2 1074 \<le> \<bar>x\<bar> * pow2 1074"
    using lo pow2_pos [of 1074] by (simp add: mult_right_mono)
  then have a: "(2::int) ^ k \<le> \<lfloor>\<bar>x\<bar> * pow2 1074\<rfloor>"
    by (simp add: p le_floor_iff)
  have "\<bar>x\<bar> * pow2 1074 < pow2 (e + 1) * pow2 1074"
    using hi pow2_pos [of 1074] by (simp add: mult_strict_right_mono)
  then have b: "\<lfloor>\<bar>x\<bar> * pow2 1074\<rfloor> < (2::int) ^ (k + 1)"
    unfolding p1 by (simp add: floor_less_iff)
  from bitlen_eqI [OF a b] ke show ?thesis
    by (simp add: quantum_exp_def)
qed

lemma floor_rat_numeral: "\<lfloor>(numeral a :: rat) / numeral b\<rfloor> = numeral a div numeral b"
  using floor_divide_of_int_eq [of "numeral a" "numeral b", where ?'a = rat] by simp

lemmas eval_round = round64_def Let_def pow2_def round_even_def floor_rat_numeral

lemma round_even_of_int: "round_even (of_int m) = m"
  by (simp add: round_even_def)

lemma round64_zero: "round64 0 = Finite 0"
  using pow2_pos [of 1024] by (simp add: round64_def round_even_def Let_def not_le)

lemma round64_of_int:
  assumes "\<bar>n\<bar> < 2 ^ 53"
  shows "round64 (of_int n) = Finite (of_int n)"
proof (cases "n = 0")
  case True
  then show ?thesis by (simp add: round64_zero)
next
  case False
  define k where "k = nat (bitlen \<bar>n\<bar> - 1)"
  have pos: "0 < \<bar>n\<bar>" using False by simp
  from bitlen_bounds [OF pos] have b: "2 ^ k \<le> \<bar>n\<bar>" "\<bar>n\<bar> < 2 ^ nat (bitlen \<bar>n\<bar>)"
    by (auto simp: k_def)
  have bl: "0 < bitlen \<bar>n\<bar>"
    using pos bitlen_nonneg [of "\<bar>n\<bar>"] bitlen_eq_zero_iff [of "\<bar>n\<bar>"] by linarith
  then have k1: "nat (bitlen \<bar>n\<bar>) = k + 1" by (simp add: k_def)
  have "(2::int) ^ k < 2 ^ 53" using b(1) assms by linarith
  then have k53: "k < 53" by (rule power_less_imp_less_exp [rotated]) simp
  have lo: "pow2 (int k) \<le> \<bar>rat_of_int n\<bar>"
  proof -
    have "rat_of_int (2 ^ k) \<le> rat_of_int \<bar>n\<bar>" using b(1) by (simp only: of_int_le_iff)
    then show ?thesis by (simp add: pow2_nat)
  qed
  have hi: "\<bar>rat_of_int n\<bar> < pow2 (int k + 1)"
  proof -
    have "rat_of_int \<bar>n\<bar> < rat_of_int (2 ^ (k + 1))"
      using b(2) unfolding k1 by (simp only: of_int_less_iff)
    then show ?thesis using pow2_nat [of "k + 1"] by (simp add: add.commute)
  qed
  have q: "quantum_exp (rat_of_int n) = int k - 52"
    using quantum_exp_binade [OF lo hi] k53 by simp
  have pq: "pow2 (int k - 52) * 2 ^ (52 - k) = 1"
    using pow2_add [of "int k - 52" "int (52 - k)"] k53 pow2_nat [of "52 - k"]
    by (simp add: pow2_def [of 0])
  have sc: "rat_of_int n / pow2 (int k - 52) = rat_of_int (n * 2 ^ (52 - k))"
    using pq pow2_pos [of "int k - 52"] by (simp add: field_simps)
  have unscale: "rat_of_int (n * 2 ^ (52 - k)) * pow2 (int k - 52) = rat_of_int n"
    using pq by (simp add: mult.assoc mult.commute)
  have "\<bar>rat_of_int n\<bar> < 2 ^ 53"
  proof -
    have "rat_of_int \<bar>n\<bar> < rat_of_int (2 ^ 53)" using assms by (simp only: of_int_less_iff)
    then show ?thesis by simp
  qed
  moreover have "(2::rat) ^ 53 \<le> pow2 1024"
    using pow2_nat [of 1024] power_increasing [of 53 1024 "2::rat"] by simp
  ultimately have nov: "\<not> pow2 1024 \<le> \<bar>rat_of_int n\<bar>" by linarith
  show ?thesis
    unfolding round64_def Let_def q sc round_even_of_int unscale
    using nov by simp
qed

lemma round64_numeral:
  assumes "numeral k < (2::int) ^ 53"
  shows "round64 (numeral k) = Finite (numeral k)"
  using round64_of_int [of "numeral k"] assms by simp

lemma round64_one: "round64 1 = Finite 1"
  using round64_of_int [of 1] by simp

lemma round_even_cases: "round_even y = \<lfloor>y\<rfloor> \<or> round_even y = \<lfloor>y\<rfloor> + 1"
  by (simp add: round_even_def Let_def)

lemma round_even_bound:
  assumes "\<bar>y\<bar> < of_int N"
  shows "\<bar>round_even y\<bar> \<le> N"
proof -
  have "y < of_int N" and "of_int (- N) \<le> y" using assms by auto
  then have "\<lfloor>y\<rfloor> < N" and "- N \<le> \<lfloor>y\<rfloor>"
    by (simp_all add: floor_less_iff le_floor_iff)
  with round_even_cases [of y] show ?thesis by linarith
qed

lemma scaled_below_2_53: "\<bar>x / pow2 (quantum_exp x)\<bar> < 2 ^ 53"
proof -
  define m where "m = \<lfloor>\<bar>x\<bar> * pow2 1074\<rfloor>"
  define L where "L = bitlen m"
  have m0: "0 \<le> m" using pow2_pos [of 1074] by (simp add: m_def)
  have L0: "0 \<le> L" by (simp add: L_def bitlen_nonneg)
  have mL: "m < 2 ^ nat L"
  proof (cases "m = 0")
    case True then show ?thesis by simp
  next
    case False
    with m0 have "0 < m" by simp
    from bitlen_bounds [OF this] show ?thesis by (simp add: L_def)
  qed
  have "\<bar>x\<bar> * pow2 1074 < rat_of_int (m + 1)"
    unfolding m_def by linarith
  also have "rat_of_int (m + 1) \<le> rat_of_int (2 ^ nat L)"
  proof -
    have "m + 1 \<le> 2 ^ nat L" using mL by simp
    then show ?thesis by (simp only: of_int_le_iff)
  qed
  also have "rat_of_int (2 ^ nat L) = pow2 L"
    using L0 by (simp add: pow2_def)
  finally have 1: "\<bar>x\<bar> * pow2 1074 < pow2 L" .
  have q: "L - 1127 \<le> quantum_exp x"
    by (simp add: quantum_exp_def L_def m_def)
  have "pow2 L \<le> pow2 (quantum_exp x + 53 + 1074)"
    using q by (intro pow2_mono) simp
  also have "\<dots> = pow2 (quantum_exp x) * 2 ^ 53 * pow2 1074"
    using pow2_add [of "quantum_exp x + 53" 1074] pow2_add [of "quantum_exp x" 53]
      pow2_nat [of 53] by simp
  finally have "\<bar>x\<bar> * pow2 1074 < pow2 (quantum_exp x) * 2 ^ 53 * pow2 1074"
    using 1 by linarith
  then have "\<bar>x\<bar> < pow2 (quantum_exp x) * 2 ^ 53"
    using pow2_pos [of 1074] by simp
  then show ?thesis
    using pow2_pos [of "quantum_exp x"] by (simp add: abs_mult field_simps abs_of_pos)
qed

lemma round64_scaled_int:
  assumes n: "\<bar>n\<bar> \<le> 2 ^ 53" and q: "- 1074 \<le> q"
    and nov: "\<not> pow2 1024 \<le> \<bar>rat_of_int n * pow2 q\<bar>"
  shows "round64 (rat_of_int n * pow2 q) = Finite (rat_of_int n * pow2 q)"
proof (cases "n = 0")
  case True
  then show ?thesis by (simp add: round64_zero)
next
  case False
  define r where "r = rat_of_int n * pow2 q"
  define k where "k = nat (bitlen \<bar>n\<bar> - 1)"
  have pos: "0 < \<bar>n\<bar>" using False by simp
  have bl: "0 < bitlen \<bar>n\<bar>"
    using pos bitlen_nonneg [of "\<bar>n\<bar>"] bitlen_eq_zero_iff [of "\<bar>n\<bar>"] by linarith
  then have k1: "nat (bitlen \<bar>n\<bar>) = k + 1" by (simp add: k_def)
  from bitlen_bounds [OF pos] have b: "2 ^ k \<le> \<bar>n\<bar>" "\<bar>n\<bar> < 2 ^ (k + 1)"
    using k1 by (auto simp: k_def)
  have "(2::int) ^ k < 2 ^ 54" using b(1) n by simp
  then have k54: "k < 54" by (rule power_less_imp_less_exp [rotated]) simp
  have absr: "\<bar>r\<bar> = rat_of_int \<bar>n\<bar> * pow2 q"
    using pow2_pos [of q] by (simp add: r_def abs_mult abs_of_pos)
  have lo: "pow2 (int k + q) \<le> \<bar>r\<bar>"
  proof -
    have "rat_of_int (2 ^ k) \<le> rat_of_int \<bar>n\<bar>" using b(1) by (simp only: of_int_le_iff)
    then have "pow2 (int k) * pow2 q \<le> rat_of_int \<bar>n\<bar> * pow2 q"
      using pow2_pos [of q] by (simp add: pow2_nat)
    then show ?thesis by (simp add: absr pow2_add)
  qed
  have hi: "\<bar>r\<bar> < pow2 (int k + q + 1)"
  proof -
    have "rat_of_int \<bar>n\<bar> < rat_of_int (2 ^ (k + 1))" using b(2) by (simp only: of_int_less_iff)
    then have "rat_of_int \<bar>n\<bar> * pow2 q < pow2 (int (k + 1)) * pow2 q"
      using pow2_pos [of q] pow2_nat [of "k + 1"] by simp
    then show ?thesis
      using pow2_add [of "int (k + 1)" q] by (simp add: absr add.commute add.left_commute)
  qed
  have qe: "quantum_exp r = max (int k + q - 52) (- 1074)"
    using quantum_exp_binade [OF lo hi] q by simp
  have "\<exists>M. r = rat_of_int M * pow2 (quantum_exp r)"
  proof (cases "k = 53")
    case True
    then have "\<bar>n\<bar> = 2 ^ 53" using b(1) n by simp
    then have nn: "n = 2 ^ 53 \<or> n = - (2 ^ 53)" by linarith
    have q': "quantum_exp r = q + 1" using qe True q by simp
    have p: "pow2 (q + 1) = 2 * pow2 q" using pow2_add [of q 1] by (simp add: pow2_def [of 1])
    have pq: "pow2 (quantum_exp r) = 2 * pow2 q" using q' p by simp
    from nn show ?thesis
    proof
      assume "n = 2 ^ 53"
      then have e1: "r = rat_of_int (2 ^ 52) * (2 * pow2 q)"
        by (simp add: r_def)
      have e2: "rat_of_int (2 ^ 52) * (2 * pow2 q) = rat_of_int (2 ^ 52) * pow2 (quantum_exp r)"
        by (simp only: pq)
      have "r = rat_of_int (2 ^ 52) * pow2 (quantum_exp r)"
        by (rule trans [OF e1 e2])
      then show ?thesis by blast
    next
      assume "n = - (2 ^ 53)"
      then have e1: "r = rat_of_int (- (2 ^ 52)) * (2 * pow2 q)"
        by (simp add: r_def)
      have e2: "rat_of_int (- (2 ^ 52)) * (2 * pow2 q) = rat_of_int (- (2 ^ 52)) * pow2 (quantum_exp r)"
        by (simp only: pq)
      have "r = rat_of_int (- (2 ^ 52)) * pow2 (quantum_exp r)"
        by (rule trans [OF e1 e2])
      then show ?thesis by blast
    qed
  next
    case False
    with k54 have k52: "k \<le> 52" by simp
    define d where "d = nat (q - quantum_exp r)"
    have dq: "int d = q - quantum_exp r" using qe k52 q by (simp add: d_def)
    have "pow2 q = pow2 (int d) * pow2 (quantum_exp r)"
      using pow2_add [of "int d" "quantum_exp r"] by (simp add: dq)
    then have "rat_of_int n * pow2 q = rat_of_int (n * 2 ^ d) * pow2 (quantum_exp r)"
      by (simp add: pow2_nat mult.assoc)
    then have "r = rat_of_int (n * 2 ^ d) * pow2 (quantum_exp r)"
      by (simp only: r_def [symmetric])
    then show ?thesis by blast
  qed
  then obtain M where M: "r = rat_of_int M * pow2 (quantum_exp r)" ..
  have "r / pow2 (quantum_exp r) = rat_of_int M"
    using M pow2_pos [of "quantum_exp r"] by (simp add: field_simps)
  then have "round_even (r / pow2 (quantum_exp r)) = M"
    by (simp add: round_even_of_int)
  then have "round64 r = Finite r"
    using M nov by (simp add: round64_def Let_def r_def [symmetric])
  then show ?thesis by (simp add: r_def)
qed

lemma round64_idem:
  assumes "round64 x = Finite r"
  shows "round64 r = Finite r"
proof -
  define q where "q = quantum_exp x"
  define n where "n = round_even (x / pow2 q)"
  from assms have r: "r = rat_of_int n * pow2 q" and nov: "\<not> pow2 1024 \<le> \<bar>rat_of_int n * pow2 q\<bar>"
    by (auto simp: round64_def Let_def q_def n_def split: if_splits)
  have "\<bar>x / pow2 q\<bar> < rat_of_int (2 ^ 53)"
    using scaled_below_2_53 [of x] by (simp add: q_def)
  then have n53: "\<bar>n\<bar> \<le> 2 ^ 53"
    unfolding n_def by (rule round_even_bound)
  have q1074: "- 1074 \<le> q" by (simp add: q_def quantum_exp_def)
  show ?thesis
    unfolding r by (rule round64_scaled_int [OF n53 q1074 nov])
qed

text \<open>
  The result of an operation is a double again, and adding 0 to a double gives the same
  double.
\<close>

lemma isDouble_round64: "isDouble (round64 x)"
  by (cases "round64 x") (auto simp: isDouble_def representable_def dest: round64_idem)

lemma isDouble_dadd: "isDouble (dadd a b)"
proof (cases a; cases b)
  fix x y assume "a = Finite x" and "b = Finite y"
  then show ?thesis using isDouble_round64 [of "x + y"] by (simp add: dadd_def)
qed (simp_all add: dadd_def isDouble_def)

lemma dadd_zero: "isDouble a \<Longrightarrow> dadd a (Finite 0) = a"
  by (cases a) (simp_all add: dadd_def isDouble_def representable_def)

text \<open>Rounding a value that lies between \<open>pow2 e\<close> and \<open>pow2 (e + 1)\<close>.\<close>

lemma round64_binade:
  assumes "pow2 e \<le> \<bar>x\<bar>" and "\<bar>x\<bar> < pow2 (e + 1)" and "- 1022 \<le> e"
  shows "round64 x =
     (let n = round_even (x / pow2 (e - 52)); r = of_int n * pow2 (e - 52)
      in if pow2 1024 \<le> \<bar>r\<bar> then Infinity (0 < x) else Finite r)"
proof -
  have "quantum_exp x = e - 52"
    using quantum_exp_binade [OF assms(1,2)] assms(3) by simp
  then show ?thesis by (simp add: round64_def Let_def)
qed

lemmas eval_double =
  dadd_def dsub_def dneg_def dmul_def ddiv_def dlt_def dle_def dgt_def dge_def or_zero_def
  round64_numeral round64_zero round64_one

subsection \<open>Payments\<close>

lemmas eval_invoices =
  world3_def world2_def world1_def invoice1_def invoice2_def payment1_def paymentRequest_def
  moneyWorld_def
  patient1_def patient9_def vet1_def appointment1_def appointment9_def
  storedInvoice_def findInvoice_def paymentsOf_def whereEq_def truthy_def

lemma foldl_paid:
  assumes "isDouble a"
  shows "foldl (\<lambda>sum payment.
            dadd sum (if Payment.status payment = SUCCESS then Payment.amount payment
                      else Finite 0)) a ps
   = foldl dadd a (map Payment.amount (filter (\<lambda>p. Payment.status p = SUCCESS) ps))"
  using assms
  by (induction ps arbitrary: a) (simp_all add: isDouble_dadd dadd_zero)

lemma paidAmountOf_spec: "paidAmountOf (paymentsOf w iid) = spec_successTotal w iid"
proof -
  have "isDouble (Finite 0)"
    by (simp add: isDouble_def representable_def round64_zero)
  then show ?thesis
    by (simp add: paidAmountOf_def paymentsOf_def spec_successTotal_def foldl_paid)
qed

lemma find_updateInvoiceRow:
  assumes "\<And>i. Invoice.id (f i) = Invoice.id i"
  shows "find (\<lambda>i. Invoice.id i = x) (updateInvoiceRow x f rows) =
         map_option f (find (\<lambda>i. Invoice.id i = x) rows)"
  by (induction rows) (simp_all add: updateInvoiceRow_def assms)

lemma storedInvoice_id: "storedInvoice w x = Some i \<Longrightarrow> Invoice.id i = x"
  by (auto simp: storedInvoice_def dest: find_Some_iff [THEN iffD1])

lemma stored_inv1: "storedInvoice world2 ''inv1'' = Some invoice1"
  by (simp add: eval_invoices)

lemma total_inv1: "spec_successTotal world2 ''inv1'' = Finite 40"
  by (simp add: spec_successTotal_def eval_invoices eval_double)

lemma pay60:
  "fst (createPayment ''pay2'' 2000 (paymentRequest 60) world2) =
    Inr (\<lparr> Payment.id = ''pay2'', Payment.invoiceId = ''inv1'', Payment.amount = Finite 60,
            Payment.paymentMethod = TRANSFER, Payment.transactionId = None,
            Payment.status = SUCCESS, Payment.paymentDate = 2000,
            Payment.notesText = None \<rparr>,
         Some (invoice1\<lparr>Invoice.status := PAID\<rparr>))"
  by (simp add: createPayment_def paidAmountOf_def paymentStatusAfter_def updateInvoiceRow_def
      or_null_def Let_def eval_invoices eval_double)

lemma pay10:
  "fst (createPayment ''pay2'' 2000 (paymentRequest 10) world2) =
    Inr (\<lparr> Payment.id = ''pay2'', Payment.invoiceId = ''inv1'', Payment.amount = Finite 10,
            Payment.paymentMethod = TRANSFER, Payment.transactionId = None,
            Payment.status = SUCCESS, Payment.paymentDate = 2000,
            Payment.notesText = None \<rparr>,
         Some (invoice1\<lparr>Invoice.status := PARTIAL\<rparr>))"
  by (simp add: createPayment_def paidAmountOf_def paymentStatusAfter_def updateInvoiceRow_def
      or_null_def Let_def eval_invoices eval_double)

text \<open>The doubles nearest to 0.1, 0.2, 0.01, 0.07 and 0.08, and three operations on them.\<close>

lemma literal_0_1: "round64 (1 / 10) = Finite (3602879701896397 / 36028797018963968)"
  using round64_binade [of "- 4" "1 / 10"] by (simp add: eval_round)

lemma literal_0_2: "round64 (2 / 10) = Finite (3602879701896397 / 18014398509481984)"
  using round64_binade [of "- 3" "2 / 10"] by (simp add: eval_round)

lemma literal_0_01: "round64 (1 / 100) = Finite (5764607523034235 / 576460752303423488)"
  using round64_binade [of "- 7" "1 / 100"] by (simp add: eval_round)

lemma literal_0_07: "round64 (7 / 100) = Finite (1261007895663739 / 18014398509481984)"
  using round64_binade [of "- 4" "7 / 100"] by (simp add: eval_round)

lemma literal_0_08: "round64 (8 / 100) = Finite (5764607523034235 / 72057594037927936)"
  using round64_binade [of "- 4" "8 / 100"] by (simp add: eval_round)

lemma add_0_1_0_2:
  "dadd (Finite (3602879701896397 / 36028797018963968))
        (Finite (3602879701896397 / 18014398509481984)) =
   Finite (1351079888211149 / 4503599627370496)"
  using round64_binade [of "- 2"
      "3602879701896397 / 36028797018963968 + 3602879701896397 / 18014398509481984"]
  by (simp add: dadd_def eval_round)

lemma sub_0_08_0_01:
  "dsub (Finite (5764607523034235 / 72057594037927936))
        (Finite (5764607523034235 / 576460752303423488)) =
   Finite (1261007895663739 / 18014398509481984)"
  using round64_binade [of "- 4"
      "5764607523034235 / 72057594037927936 - 5764607523034235 / 576460752303423488"]
  by (simp add: dsub_def dneg_def dadd_def eval_round)

lemma add_0_0_1:
  "dadd (Finite 0) (Finite (3602879701896397 / 36028797018963968)) =
   Finite (3602879701896397 / 36028797018963968)"
  using round64_binade [of "- 4" "3602879701896397 / 36028797018963968"]
  by (simp add: dadd_def eval_round)

lemma add_0_0_01:
  "dadd (Finite 0) (Finite (5764607523034235 / 576460752303423488)) =
   Finite (5764607523034235 / 576460752303423488)"
  using round64_binade [of "- 7" "5764607523034235 / 576460752303423488"]
  by (simp add: dadd_def eval_round)

lemma sub_0_3_0_1:
  "dsub (Finite (1351079888211149 / 4503599627370496))
        (Finite (3602879701896397 / 36028797018963968)) =
   Finite (7205759403792795 / 36028797018963968)"
  using round64_binade [of "- 3"
      "1351079888211149 / 4503599627370496 - 3602879701896397 / 36028797018963968"]
  by (simp add: dsub_def dneg_def dadd_def eval_round)

text \<open>
  C3, as the claim states it, fails twice.  No order of the statuses is kept: a payment of
  10 on an invoice of 100 that is stored as PAID and has no payment yet puts it back to
  PARTIAL.  And the sum is one of doubles: with the total 0.30000000000000004, 0.1 paid and a
  payment of 0.2, the exact sum of the two amounts is below the total, but their sum as
  doubles is the total, and the invoice becomes PAID.
\<close>

theorem C3_counterexample_order_and_rounding:
  "storedInvoice world2 ''inv2'' = Some invoice2 \<and> Invoice.status invoice2 = PAID \<and>
   map_option Invoice.status
     (storedInvoice
        (snd (createPayment ''pay2'' 2000
                ((paymentRequest 10)\<lparr>CreatePaymentData.invoiceId := ''inv2''\<rparr>) world2))
        ''inv2'') = Some PARTIAL \<and>
   (0::rat) < 3602879701896397 / 36028797018963968 + 3602879701896397 / 18014398509481984 \<and>
   (3602879701896397 / 36028797018963968 + 3602879701896397 / 18014398509481984 ::rat)
     < 1351079888211149 / 4503599627370496 \<and>
   map_option Invoice.status
     (storedInvoice
        (snd (createPayment ''pay2'' 2000
                (paymentRequest (3602879701896397 / 18014398509481984))
                (moneyWorld (1351079888211149 / 4503599627370496)
                   (3602879701896397 / 36028797018963968))))
        ''inv1'') = Some PAID"
proof -
  have a: "storedInvoice world2 ''inv2'' = Some invoice2 \<and> Invoice.status invoice2 = PAID"
    by (simp add: eval_invoices)
  have b: "map_option Invoice.status
     (storedInvoice
        (snd (createPayment ''pay2'' 2000
                ((paymentRequest 10)\<lparr>CreatePaymentData.invoiceId := ''inv2''\<rparr>) world2))
        ''inv2'') = Some PARTIAL"
    by (simp add: createPayment_def paidAmountOf_def paymentStatusAfter_def
        updateInvoiceRow_def or_null_def Let_def eval_invoices eval_double)
  have c: "map_option Invoice.status
     (storedInvoice
        (snd (createPayment ''pay2'' 2000
                (paymentRequest (3602879701896397 / 18014398509481984))
                (moneyWorld (1351079888211149 / 4503599627370496)
                   (3602879701896397 / 36028797018963968))))
        ''inv1'') = Some PAID"
    by (simp add: createPayment_def paidAmountOf_def paymentStatusAfter_def
        updateInvoiceRow_def or_null_def Let_def eval_invoices add_0_0_1 add_0_1_0_2
        sub_0_3_0_1 dgt_def dge_def dlt_def dle_def)
  show ?thesis using a b c by simp
qed

text \<open>
  C3, amended.  After createPayment succeeds with amount \<open>a\<close> on an invoice, whatever status
  the invoice had, its stored status (which is also the status of the invoice returned) is
  PAID when the amounts of the prior SUCCESS payments plus \<open>a\<close>, added as doubles, are at
  least totalAmount, PARTIAL when that sum is positive but not at least totalAmount, and
  the status it had before otherwise.
\<close>

theorem C3_payment_status_transition:
  assumes inv: "storedInvoice w (CreatePaymentData.invoiceId data) = Some invoice"
    and ok: "fst (createPayment newId now data w) = Inr (payment, updated)"
  shows "map_option Invoice.status
           (storedInvoice (snd (createPayment newId now data w))
              (CreatePaymentData.invoiceId data)) =
         Some (if dge (dadd (spec_successTotal w (CreatePaymentData.invoiceId data))
                         (CreatePaymentData.amount data))
                      (Invoice.totalAmount invoice)
               then PAID
               else if dgt (dadd (spec_successTotal w (CreatePaymentData.invoiceId data))
                              (CreatePaymentData.amount data))
                           (Finite 0)
               then PARTIAL
               else Invoice.status invoice)
       \<and> updated = storedInvoice (snd (createPayment newId now data w))
                     (CreatePaymentData.invoiceId data)"
  using ok storedInvoice_id [OF inv] inv
  by (auto simp: createPayment_def paidAmountOf_spec Let_def paymentStatusAfter_def
      storedInvoice_def find_updateInvoiceRow split: if_splits)

theorem C3_payment_status_transition_witness:
  "map_option Invoice.status
     (storedInvoice (snd (createPayment ''pay2'' 2000 (paymentRequest 60) world2)) ''inv1'') =
     Some PAID \<and>
   map_option Invoice.status
     (storedInvoice (snd (createPayment ''pay2'' 2000 (paymentRequest 10) world2)) ''inv1'') =
     Some PARTIAL"
proof -
  have a: "storedInvoice world2 (CreatePaymentData.invoiceId (paymentRequest x)) = Some invoice1"
    for x by (simp add: paymentRequest_def stored_inv1)
  show ?thesis
    using C3_payment_status_transition [OF a pay60] C3_payment_status_transition [OF a pay10]
    by (simp add: paymentRequest_def total_inv1 invoice1_def eval_double)
qed

text \<open>
  C4, as the claim states it, fails: the balance is a difference of doubles.  With the total
  0.08 and 0.01 paid, a payment of 0.07 is strictly greater than the exact difference of the
  two amounts, but equal to their difference as doubles, and it is accepted.
\<close>

theorem C4_counterexample_rounded_balance:
  "(1261007895663739 / 18014398509481984 ::rat) >
     5764607523034235 / 72057594037927936 - 5764607523034235 / 576460752303423488 \<and>
   succeeded (fst (createPayment ''pay2'' 2000
                (paymentRequest (1261007895663739 / 18014398509481984))
                (moneyWorld (5764607523034235 / 72057594037927936)
                   (5764607523034235 / 576460752303423488)))) \<and>
   length (World.payments (snd (createPayment ''pay2'' 2000
                (paymentRequest (1261007895663739 / 18014398509481984))
                (moneyWorld (5764607523034235 / 72057594037927936)
                   (5764607523034235 / 576460752303423488))))) = 2"
  by (simp add: createPayment_def paidAmountOf_def succeeded_def Let_def eval_invoices
      add_0_0_01 sub_0_08_0_01 dgt_def dlt_def)

text \<open>
  C4, amended.  When the requested amount is strictly greater than the invoice's
  totalAmount minus the sum of its SUCCESS payments, the sum and the difference being those
  of doubles, createPayment throws the 400 error 'Payment amount exceeds remaining balance'
  and leaves every table as it was: no payment is written and the status of the invoice is
  not touched.
\<close>

theorem C4_overpayment_rejected:
  assumes "storedInvoice w (CreatePaymentData.invoiceId data) = Some invoice"
    and "dgt (CreatePaymentData.amount data)
           (dsub (Invoice.totalAmount invoice)
              (spec_successTotal w (CreatePaymentData.invoiceId data)))"
  shows "createPayment newId now data w =
         (Inl (AppError 400 ''Payment amount exceeds remaining balance''), w)"
  using assms storedInvoice_id [OF assms(1)]
  by (simp add: createPayment_def paidAmountOf_spec Let_def)

theorem C4_overpayment_rejected_witness:
  "createPayment ''pay2'' 2000 (paymentRequest 70) world2 =
     (Inl (AppError 400 ''Payment amount exceeds remaining balance''), world2)"
proof -
  have a: "storedInvoice world2 (CreatePaymentData.invoiceId (paymentRequest 70)) =
           Some invoice1"
    by (simp add: paymentRequest_def stored_inv1)
  have b: "dgt (CreatePaymentData.amount (paymentRequest 70))
           (dsub (Invoice.totalAmount invoice1)
              (spec_successTotal world2 (CreatePaymentData.invoiceId (paymentRequest 70))))"
    by (simp add: paymentRequest_def total_inv1 invoice1_def eval_double)
  show ?thesis using C4_overpayment_rejected [OF a b] by simp
qed

subsection \<open>updateInvoice and createInvoice\<close>

text \<open>
  C8.  When the invoice updateInvoice looks up has the status PAID, the call throws the 400
  error 'Cannot modify a paid invoice' and nothing is written.
\<close>

theorem C8_paid_invoice_immutable:
  assumes "findInvoice id' clinicId' w = Some invoice" and "Invoice.status invoice = PAID"
  shows "updateInvoice now id' data clinicId' w =
         (Inl (AppError 400 ''Cannot modify a paid invoice''), w)"
  using assms by (simp add: updateInvoice_def)

theorem C8_paid_invoice_immutable_witness:
  "updateInvoice 5000 ''inv2'' (statusUpdate SENT) (Some ''clinicB'') world2 =
     (Inl (AppError 400 ''Cannot modify a paid invoice''), world2)"
proof -
  have a: "findInvoice ''inv2'' (Some ''clinicB'') world2 = Some invoice2"
    by (simp add: eval_invoices)
  have b: "Invoice.status invoice2 = PAID"
    by (simp add: invoice2_def)
  show ?thesis using C8_paid_invoice_immutable [OF a b] by simp
qed









subsection \<open>Clinic scope of the reads\<close>

lemma take_drop_subset: "set (take n (drop m xs)) \<subseteq> set xs"
  by (meson set_take_subset set_drop_subset subset_trans)

lemma skipTake_subset:
  assumes "skipTake s t xs = Some ys"
  shows "set ys \<subseteq> set xs"
proof (cases "0 \<le> t")
  case True
  with assms have "ys = take (nat t) (drop (nat s) xs)"
    by (simp add: skipTake_def split: if_splits)
  then show ?thesis by (simp add: take_drop_subset)
next
  case False
  with assms have "ys = rev (take (nat (- t)) (drop (nat s) (rev xs)))"
    by (simp add: skipTake_def split: if_splits)
  then show ?thesis using take_drop_subset [of "nat (- t)" "nat s" "rev xs"] by simp
qed

lemma whereEq_Some: "c \<noteq> [] \<Longrightarrow> whereEq (Some c) x = (x = c)"
  by (auto simp: whereEq_def truthy_def)

lemma ceilDiv_int: "ceilDiv n l = (if l = 0 then None else Some (- ((- int n) div l)))"
proof -
  have "\<lceil>rat_of_nat n / rat_of_int l\<rceil> = - ((- int n) div l)"
    using ceiling_divide_eq_div [of "int n" l, where ?'a = rat] by simp
  then show ?thesis by (simp add: ceilDiv_def)
qed

lemmas eval_reads =
  getAppointments_def appointmentsWhere_def emptyAppointmentsQuery_def
  getInvoices_def invoicesWhere_def emptyInvoicesQuery_def getInvoiceById_def
  getAllPatients_def patientsWhere_def emptyPatientsQuery_def
  skipTake_def ceilDiv_int Let_def

text \<open>
  C5, as the claim states it, fails: the clinic filter is added only when the caller passes
  a truthy clinicId.  Called without one, getInvoices returns the invoices of clinic B and
  of clinic A together.
\<close>

theorem C5_counterexample_unscoped_read:
  "getInvoices emptyInvoicesQuery world2 =
     Inr \<lparr> InvoicesResult.invoices = [invoice2, invoice1], InvoicesResult.total = 2,
           InvoicesResult.page = 1, InvoicesResult.totalPages = Some 1 \<rparr> \<and>
   GetInvoicesQuery.clinicId emptyInvoicesQuery = None \<and>
   Invoice.clinicId invoice2 = ''clinicB'' \<and> Invoice.clinicId invoice1 = ''clinicA''"
  by (simp add: eval_reads eval_invoices)

text \<open>
  C5, amended.  When the caller supplies a non-empty clinicId, every record returned by
  getAppointments, getInvoices, getInvoiceById and getAllPatients carries that clinicId.
\<close>

theorem C5_reads_scoped_by_supplied_clinic:
  assumes "c \<noteq> []"
  shows "(getAppointments q w = Inr ar \<and> GetAppointmentsQuery.clinicId q = Some c \<longrightarrow>
            (\<forall>a\<in>set (AppointmentsResult.appointments ar). Appointment.clinicId a = c))
       \<and> (getInvoices iq w = Inr ir \<and> GetInvoicesQuery.clinicId iq = Some c \<longrightarrow>
            (\<forall>i\<in>set (InvoicesResult.invoices ir). Invoice.clinicId i = c))
       \<and> (getInvoiceById id' (Some c) w = Inr i \<longrightarrow> Invoice.clinicId i = c)
       \<and> (getAllPatients (Some c) pq w = Response code ok (Inl body) \<longrightarrow>
            (\<forall>p\<in>set (dataRows body). Patient.clinicId p = c))"
proof (intro conjI impI)
  assume h: "getAppointments q w = Inr ar \<and> GetAppointmentsQuery.clinicId q = Some c"
  then obtain rows where r: "skipTake
        (((case GetAppointmentsQuery.page q of None \<Rightarrow> 1 | Some v \<Rightarrow> v) - 1) *
         (case GetAppointmentsQuery.limit q of None \<Rightarrow> 20 | Some v \<Rightarrow> v))
        (case GetAppointmentsQuery.limit q of None \<Rightarrow> 20 | Some v \<Rightarrow> v)
        (sort_key (\<lambda>a. (Appointment.appointmentDate a, Appointment.appointmentTime a))
           (filter (appointmentsWhere q w) (World.appointments w))) = Some rows"
    and a: "AppointmentsResult.appointments ar = rows"
    by (auto simp: getAppointments_def Let_def split: option.splits)
  show "\<forall>a\<in>set (AppointmentsResult.appointments ar). Appointment.clinicId a = c"
    using skipTake_subset [OF r] h assms
    by (auto simp: a appointmentsWhere_def whereEq_Some)
next
  assume h: "getInvoices iq w = Inr ir \<and> GetInvoicesQuery.clinicId iq = Some c"
  then obtain rows where r: "skipTake
        (((case GetInvoicesQuery.page iq of None \<Rightarrow> 1 | Some v \<Rightarrow> v) - 1) *
         (case GetInvoicesQuery.limit iq of None \<Rightarrow> 20 | Some v \<Rightarrow> v))
        (case GetInvoicesQuery.limit iq of None \<Rightarrow> 20 | Some v \<Rightarrow> v)
        (rev (sort_key Invoice.issueDate (filter (invoicesWhere iq w) (World.invoices w))))
        = Some rows"
    and a: "InvoicesResult.invoices ir = rows"
    by (auto simp: getInvoices_def Let_def split: option.splits)
  show "\<forall>i\<in>set (InvoicesResult.invoices ir). Invoice.clinicId i = c"
    using skipTake_subset [OF r] h assms
    by (auto simp: a invoicesWhere_def whereEq_Some)
next
  assume "getInvoiceById id' (Some c) w = Inr i"
  then have "findInvoice id' (Some c) w = Some i"
    by (auto simp: getInvoiceById_def split: option.splits)
  then show "Invoice.clinicId i = c"
    using assms by (auto simp: findInvoice_def find_Some_iff whereEq_Some)
next
  assume h: "getAllPatients (Some c) pq w = Response code ok (Inl body)"
  then obtain rows where r: "skipTake
        (((case PatientsQuery.page pq of None \<Rightarrow> 1 | Some v \<Rightarrow> v) - 1) *
         (case PatientsQuery.limit pq of None \<Rightarrow> 10 | Some v \<Rightarrow> v))
        (case PatientsQuery.limit pq of None \<Rightarrow> 10 | Some v \<Rightarrow> v)
        (rev (sort_key Patient.createdAt
                (filter (patientsWhere (Some c) pq) (World.patients w))))
        = Some rows"
    and a: "dataRows body = rows"
    by (auto simp: getAllPatients_def Let_def split: option.splits)
  show "\<forall>p\<in>set (dataRows body). Patient.clinicId p = c"
    using skipTake_subset [OF r]
    by (auto simp: a patientsWhere_def)
qed

lemma read_appointments_clinicA:
  "getAppointments (emptyAppointmentsQuery\<lparr>GetAppointmentsQuery.clinicId := Some ''clinicA''\<rparr>)
     world3 =
   Inr \<lparr> AppointmentsResult.appointments = [appointment1], AppointmentsResult.total = 1,
         AppointmentsResult.page = 1, AppointmentsResult.totalPages = Some 1 \<rparr>"
  by (simp add: eval_reads eval_invoices)

lemma read_invoices_clinicA:
  "getInvoices (emptyInvoicesQuery\<lparr>GetInvoicesQuery.clinicId := Some ''clinicA''\<rparr>) world3 =
   Inr \<lparr> InvoicesResult.invoices = [invoice1], InvoicesResult.total = 1,
         InvoicesResult.page = 1, InvoicesResult.totalPages = Some 1 \<rparr>"
  by (simp add: eval_reads eval_invoices)

lemma read_invoice_clinicA: "getInvoiceById ''inv1'' (Some ''clinicA'') world3 = Inr invoice1"
  by (simp add: eval_reads eval_invoices)

lemma read_patients_clinicA:
  "getAllPatients (Some ''clinicA'') emptyPatientsQuery world3 =
   Response 200 True
     (Inl \<lparr> PatientsBody.dataRows = [patient1], PatientsBody.page = 1,
            PatientsBody.limit = 10, PatientsBody.total = 1,
            PatientsBody.totalPages = Some 1 \<rparr>)"
  by (simp add: eval_reads eval_invoices)

theorem C5_reads_scoped_by_supplied_clinic_witness:
  "getAppointments (emptyAppointmentsQuery\<lparr>GetAppointmentsQuery.clinicId := Some ''clinicA''\<rparr>)
     world3 =
     Inr \<lparr> AppointmentsResult.appointments = [appointment1], AppointmentsResult.total = 1,
           AppointmentsResult.page = 1, AppointmentsResult.totalPages = Some 1 \<rparr> \<and>
   Appointment.clinicId appointment1 = ''clinicA'' \<and>
   getInvoices (emptyInvoicesQuery\<lparr>GetInvoicesQuery.clinicId := Some ''clinicA''\<rparr>) world3 =
     Inr \<lparr> InvoicesResult.invoices = [invoice1], InvoicesResult.total = 1,
           InvoicesResult.page = 1, InvoicesResult.totalPages = Some 1 \<rparr> \<and>
   getInvoiceById ''inv1'' (Some ''clinicA'') world3 = Inr invoice1 \<and>
   Invoice.clinicId invoice1 = ''clinicA'' \<and>
   getAllPatients (Some ''clinicA'') emptyPatientsQuery world3 =
     Response 200 True
       (Inl \<lparr> PatientsBody.dataRows = [patient1], PatientsBody.page = 1,
              PatientsBody.limit = 10, PatientsBody.total = 1,
              PatientsBody.totalPages = Some 1 \<rparr>) \<and>
   Patient.clinicId patient1 = ''clinicA'' \<and>
   World.invoices world3 = [invoice1, invoice2] \<and> Invoice.clinicId invoice2 = ''clinicB''"
proof -
  have n: "''clinicA'' \<noteq> []" by simp
  have w: "World.invoices world3 = [invoice1, invoice2]" "Invoice.clinicId invoice2 = ''clinicB''"
    by (simp_all add: eval_invoices)
  show ?thesis
    using C5_reads_scoped_by_supplied_clinic [OF n,
        of "emptyAppointmentsQuery\<lparr>GetAppointmentsQuery.clinicId := Some ''clinicA''\<rparr>"
           world3
           "\<lparr> AppointmentsResult.appointments = [appointment1], AppointmentsResult.total = 1,
              AppointmentsResult.page = 1, AppointmentsResult.totalPages = Some 1 \<rparr>"
           "emptyInvoicesQuery\<lparr>GetInvoicesQuery.clinicId := Some ''clinicA''\<rparr>"
           "\<lparr> InvoicesResult.invoices = [invoice1], InvoicesResult.total = 1,
              InvoicesResult.page = 1, InvoicesResult.totalPages = Some 1 \<rparr>"
           "''inv1''" invoice1 emptyPatientsQuery 200 True
           "\<lparr> PatientsBody.dataRows = [patient1], PatientsBody.page = 1,
              PatientsBody.limit = 10, PatientsBody.total = 1,
              PatientsBody.totalPages = Some 1 \<rparr>"]
      read_appointments_clinicA read_invoices_clinicA read_invoice_clinicA
      read_patients_clinicA w
    by simp
qed

subsection \<open>Deleting\<close>

text \<open>
  C6, as the claim states it, fails for invoices: deleteInvoice on an invoice with a payment
  keeps the row but marks it through its status, which becomes CANCELLED, and refreshes
  updatedAt; no isActive flag is written.
\<close>

theorem C6_counterexample_invoice_cancelled:
  "paymentsOf world2 ''inv1'' = [payment1] \<and>
   fst (deleteInvoice 5000 ''inv1'' (Some ''clinicA'') world2) = Inr () \<and>
   storedInvoice (snd (deleteInvoice 5000 ''inv1'' (Some ''clinicA'') world2)) ''inv1'' =
     Some (invoice1\<lparr>Invoice.status := InvoiceStatus.CANCELLED, Invoice.updatedAt := 5000\<rparr>) \<and>
   Invoice.status invoice1 = SENT \<and> Invoice.updatedAt invoice1 = 1000"
  by (simp add: deleteInvoice_def updateInvoiceRow_def eval_invoices)

text \<open>
  C6, amended.  deletePatient on a patient it finds removes no row: the rows with the
  patient's id get isActive = false and keep every other field, and nothing else changes.
  deleteInvoice on an invoice it finds that has at least one payment removes no row: the
  rows with the invoice's id get the status CANCELLED and a new updatedAt and keep every
  other field, and nothing else changes.
\<close>

theorem C6_soft_delete_frame:
  "(findPatient id' c w = Some p \<longrightarrow>
      length (World.patients (snd (deletePatient c id' w))) = length (World.patients w) \<and>
      (\<forall>k<length (World.patients w).
          World.patients (snd (deletePatient c id' w)) ! k =
            (if Patient.id (World.patients w ! k) = id'
             then (World.patients w ! k)\<lparr>Patient.isActive := False\<rparr>
             else World.patients w ! k)) \<and>
      (snd (deletePatient c id' w))\<lparr>World.patients := World.patients w\<rparr> = w)
 \<and> (findInvoice iid c w = Some existing \<and> paymentsOf w (Invoice.id existing) \<noteq> [] \<longrightarrow>
      length (World.invoices (snd (deleteInvoice now iid c w))) = length (World.invoices w) \<and>
      (\<forall>k<length (World.invoices w).
          World.invoices (snd (deleteInvoice now iid c w)) ! k =
            (if Invoice.id (World.invoices w ! k) = iid
             then (World.invoices w ! k)\<lparr>Invoice.status := InvoiceStatus.CANCELLED,
                                          Invoice.updatedAt := now\<rparr>
             else World.invoices w ! k)) \<and>
      (snd (deleteInvoice now iid c w))\<lparr>World.invoices := World.invoices w\<rparr> = w)"
  by (auto simp: deletePatient_def deleteInvoice_def updateInvoiceRow_def)

theorem C6_soft_delete_frame_witness:
  "World.patients (snd (deletePatient (Some ''clinicA'') ''pat1'' world3)) ! 0 =
     patient1\<lparr>Patient.isActive := False\<rparr> \<and>
   World.patients (snd (deletePatient (Some ''clinicA'') ''pat1'' world3)) ! 1 = patient9 \<and>
   length (World.patients (snd (deletePatient (Some ''clinicA'') ''pat1'' world3))) = 2 \<and>
   World.invoices (snd (deleteInvoice 5000 ''inv1'' (Some ''clinicA'') world3)) ! 0 =
     invoice1\<lparr>Invoice.status := InvoiceStatus.CANCELLED, Invoice.updatedAt := 5000\<rparr> \<and>
   World.invoices (snd (deleteInvoice 5000 ''inv1'' (Some ''clinicA'') world3)) ! 1 = invoice2 \<and>
   length (World.invoices (snd (deleteInvoice 5000 ''inv1'' (Some ''clinicA'') world3))) = 2"
proof -
  have a: "findPatient ''pat1'' (Some ''clinicA'') world3 = Some patient1"
    by (simp add: findPatient_def eval_invoices)
  have b: "findInvoice ''inv1'' (Some ''clinicA'') world3 = Some invoice1 \<and>
           paymentsOf world3 (Invoice.id invoice1) \<noteq> []"
    by (simp add: eval_invoices)
  have p: "World.patients world3 = [patient1, patient9]"
    and i: "World.invoices world3 = [invoice1, invoice2]"
    by (simp_all add: world3_def world2_def)
  have ids: "Patient.id patient1 = ''pat1''" "Patient.id patient9 = ''pat9''"
    "Invoice.id invoice1 = ''inv1''" "Invoice.id invoice2 = ''inv2''"
    by (simp_all add: patient1_def patient9_def invoice1_def invoice2_def)
  note t = C6_soft_delete_frame [of "''pat1''" "Some ''clinicA''" world3 patient1
      "''inv1''" invoice1 5000]
  from t a have P: "length (World.patients (snd (deletePatient (Some ''clinicA'') ''pat1'' world3)))
        = length (World.patients world3)"
    and Pk: "\<forall>k<length (World.patients world3).
          World.patients (snd (deletePatient (Some ''clinicA'') ''pat1'' world3)) ! k =
            (if Patient.id (World.patients world3 ! k) = ''pat1''
             then (World.patients world3 ! k)\<lparr>Patient.isActive := False\<rparr>
             else World.patients world3 ! k)"
    by blast+
  from t b have I: "length (World.invoices (snd (deleteInvoice 5000 ''inv1'' (Some ''clinicA'')
        world3))) = length (World.invoices world3)"
    and Ik: "\<forall>k<length (World.invoices world3).
          World.invoices (snd (deleteInvoice 5000 ''inv1'' (Some ''clinicA'') world3)) ! k =
            (if Invoice.id (World.invoices world3 ! k) = ''inv1''
             then (World.invoices world3 ! k)\<lparr>Invoice.status := InvoiceStatus.CANCELLED,
                                               Invoice.updatedAt := 5000\<rparr>
             else World.invoices world3 ! k)"
    by blast+
  from Pk [rule_format, of 0] Pk [rule_format, of 1] Ik [rule_format, of 0]
    Ik [rule_format, of 1] P I
  show ?thesis by (simp add: p i ids)
qed

subsection \<open>Socket events\<close>

text \<open>
  C7, as the claim states it, fails for appointments: AppointmentService has no socket, and
  a successful createAppointment emits nothing.
\<close>

theorem C7_counterexample_appointment_silent:
  "fst (createAppointment ''apt2'' request2 world1) = Inr (newAppointment ''apt2'' request2) \<and>
   World.emitted world1 = [] \<and>
   World.emitted (snd (createAppointment ''apt2'' request2 world1)) = []"
  by (simp add: createAppointment_def appointmentPatient_def truthy_def request2_def
      request1_def world1_def patient1_def Let_def)

text \<open>
  C7, amended.  Every successful createInvoice emits 'invoice-created' to the room
  \<open>clinic-<clinicId>\<close> of the request, every successful createPayment emits
  'payment-received' to the room \<open>clinic-<clinicId>\<close> of the invoice, and nothing else is
  emitted by either; createAppointment emits no event.
\<close>

theorem C7_socket_events:
  "(succeeded (fst (createInvoice newId number now data w)) \<longrightarrow>
      World.emitted (snd (createInvoice newId number now data w)) =
        World.emitted w @ [\<lparr>room = ''clinic-'' @ CreateInvoiceData.clinicId data,
                            event = ''invoice-created''\<rparr>])
 \<and> (succeeded (fst (createPayment newId now pdata w)) \<longrightarrow>
      (\<exists>paidInvoice. storedInvoice w (CreatePaymentData.invoiceId pdata) = Some paidInvoice \<and>
         World.emitted (snd (createPayment newId now pdata w)) =
           World.emitted w @ [\<lparr>room = ''clinic-'' @ Invoice.clinicId paidInvoice,
                               event = ''payment-received''\<rparr>]))
 \<and> World.emitted (snd (createAppointment newId adata w)) = World.emitted w"
  by (auto simp: createInvoice_def createPayment_def createAppointment_def Let_def
      succeeded_def split: option.splits if_splits prod.splits)

theorem C7_socket_events_witness:
  "World.emitted (snd (createInvoice ''new'' ''INV-nicA-202402-0042'' 3000 invoiceRequest world2))
     = [\<lparr>room = ''clinic-clinicA'', event = ''invoice-created''\<rparr>] \<and>
   World.emitted (snd (createPayment ''new'' 3000 (paymentRequest 60) world2))
     = [\<lparr>room = ''clinic-clinicA'', event = ''payment-received''\<rparr>] \<and>
   World.emitted (snd (createAppointment ''new'' request2 world2)) = []"
proof -
  have a: "succeeded (fst (createInvoice ''new'' ''INV-nicA-202402-0042'' 3000 invoiceRequest
             world2))"
    by (simp add: createInvoice_def invoicePatient_def invoiceRequest_def succeeded_def
        Let_def eval_invoices split: prod.splits)
  have b: "succeeded (fst (createPayment ''new'' 3000 (paymentRequest 60) world2))"
    by (simp add: createPayment_def paidAmountOf_def succeeded_def Let_def eval_invoices
        eval_double)
  have e: "World.emitted world2 = []"
    by (simp add: world2_def world1_def)
  show ?thesis
    using C7_socket_events [of "''new''" "''INV-nicA-202402-0042''" 3000 invoiceRequest world2
        "paymentRequest 60" request2] a b
    by (auto simp: e stored_inv1 paymentRequest_def invoiceRequest_def invoice1_def)
qed

end
